theory Spec2Isabelle
  imports Complex_Main
begin

section \<open>Numerical arrays\<close>

text \<open>
  The converter of \<^verbatim>\<open>mechkit/notation.py\<close> works on numpy arrays. An array is modelled
  by its shape and its entries in row-major (C) order, which is how numpy stores a freshly
  allocated array. The entries are real numbers: \<^verbatim>\<open>float64\<close> arithmetic is idealised as exact
  arithmetic throughout, so "equal within floating tolerance" is read as "equal". The
  converter's \<^verbatim>\<open>dtype\<close> argument, which selects the precision, has no counterpart here.
\<close>

record ndarray =
  shape :: "nat list"
  data :: "real list"

text \<open>The key of a failed dictionary lookup: a shape tuple or a string.\<close>

datatype key = ShapeKey "nat list" | StrKey string

datatype error = KeyError key | IndexError | ValueError

definition wellformed :: "ndarray \<Rightarrow> bool" where
  "wellformed x \<longleftrightarrow> length (data x) = prod_list (shape x)"

definition ndim :: "ndarray \<Rightarrow> nat" where
  "ndim x = length (shape x)"

text \<open>\<^verbatim>\<open>np.zeros(shape)\<close>\<close>

definition zeros :: "nat list \<Rightarrow> ndarray" where
  "zeros s = \<lparr>shape = s, data = replicate (prod_list s) 0\<rparr>"

text \<open>The position of the entry with multi-index \<open>idx\<close> in the row-major data of shape \<open>s\<close>.\<close>

definition ravel :: "nat list \<Rightarrow> nat list \<Rightarrow> nat" where
  "ravel s idx = foldl (\<lambda>acc (n, i). acc * n + i) 0 (zip s idx)"

text \<open>\<^verbatim>\<open>x[i, j, ...]\<close> with a full integer index, read and write.\<close>

definition item :: "ndarray \<Rightarrow> nat list \<Rightarrow> real" where
  "item x idx = data x ! ravel (shape x) idx"

definition setitem :: "ndarray \<Rightarrow> nat list \<Rightarrow> real \<Rightarrow> ndarray" where
  "setitem x idx v = x\<lparr>data := (data x)[ravel (shape x) idx := v]\<rparr>"

text \<open>
  Index expressions built with \<^verbatim>\<open>np.s_\<close>: a slice \<^verbatim>\<open>lo:hi\<close> of the first axis, or a pair
  of slices \<^verbatim>\<open>r0:r1, c0:c1\<close> of the first two axes.
\<close>

datatype position = Slice nat nat | Slice2 nat nat nat nat

fun naxes :: "position \<Rightarrow> nat" where
  "naxes (Slice lo hi) = 1"
| "naxes (Slice2 r0 r1 c0 c1) = 2"

text \<open>
  Whether the entry at flat position \<open>p\<close> of an array of shape \<open>s\<close> lies in the region an
  index expression selects. A slice end beyond the axis selects nothing more (numpy clips).
\<close>

fun selected :: "position \<Rightarrow> nat list \<Rightarrow> nat \<Rightarrow> bool" where
  "selected (Slice lo hi) s p =
     (let r = p div prod_list (tl s) in lo \<le> r \<and> r < hi)"
| "selected (Slice2 r0 r1 c0 c1) s p =
     (let inner = prod_list (drop 2 s);
          r = p div (s ! 1 * inner);
          c = (p div inner) mod (s ! 1)
      in r0 \<le> r \<and> r < r1 \<and> c0 \<le> c \<and> c < c1)"

text \<open>
  \<^verbatim>\<open>x[position]\<close>: the selected entries in their row-major order, with the sliced axes
  shortened. Indexing more axes than the array has raises \<^verbatim>\<open>IndexError\<close>.
\<close>

fun sliced_shape :: "position \<Rightarrow> nat list \<Rightarrow> nat list" where
  "sliced_shape (Slice lo hi) s = (min hi (s ! 0) - min lo (s ! 0)) # tl s"
| "sliced_shape (Slice2 r0 r1 c0 c1) s =
     (min r1 (s ! 0) - min r0 (s ! 0)) # (min c1 (s ! 1) - min c0 (s ! 1)) # drop 2 s"

definition getitem :: "ndarray \<Rightarrow> position \<Rightarrow> error + ndarray" where
  "getitem x pos =
     (if ndim x < naxes pos then Inl IndexError
      else Inr \<lparr>shape = sliced_shape pos (shape x),
                data = map (\<lambda>p. data x ! p)
                         (filter (selected pos (shape x)) [0..<length (data x)])\<rparr>)"

text \<open>Arrays given by their entries, in row-major order of the index tuples.\<close>

definition ndarray1 :: "nat \<Rightarrow> (nat \<Rightarrow> real) \<Rightarrow> ndarray" where
  "ndarray1 n f = \<lparr>shape = [n], data = map f [0..<n]\<rparr>"

definition ndarray2 :: "nat \<Rightarrow> nat \<Rightarrow> (nat \<Rightarrow> nat \<Rightarrow> real) \<Rightarrow> ndarray" where
  "ndarray2 n m f =
     \<lparr>shape = [n, m],
      data = map (\<lambda>(a, b). f a b) (List.product [0..<n] [0..<m])\<rparr>"

definition ndarray4 ::
  "nat \<Rightarrow> nat \<Rightarrow> nat \<Rightarrow> nat \<Rightarrow> (nat \<Rightarrow> nat \<Rightarrow> nat \<Rightarrow> nat \<Rightarrow> real) \<Rightarrow> ndarray" where
  "ndarray4 n1 n2 n3 n4 f =
     \<lparr>shape = [n1, n2, n3, n4],
      data = map (\<lambda>(i, j, k, l). f i j k l)
               (List.product [0..<n1] (List.product [0..<n2]
                  (List.product [0..<n3] [0..<n4])))\<rparr>"

section \<open>The converter\<close>

subsection \<open>Constants of \<^verbatim>\<open>Converter.__init__\<close>\<close>

definition factor :: real where
  "factor = sqrt 2 / 2"

definition DIM :: nat where
  "DIM = 3"

definition DIM_MANDEL6 :: nat where
  "DIM_MANDEL6 = 6"

definition DIM_MANDEL9 :: nat where
  "DIM_MANDEL9 = 9"

text \<open>\<^verbatim>\<open>SLICE6 = np.s_[0:6]\<close>, as the pair of its bounds.\<close>

definition SLICE6 :: "nat \<times> nat" where
  "SLICE6 = (0, 6)"

subsection \<open>Base dyads\<close>

text \<open>
  \<^verbatim>\<open>get_mandel_base_sym\<close> and \<^verbatim>\<open>get_mandel_base_skw\<close> read \<^verbatim>\<open>self.factor\<close>; here it is
  the argument \<open>f\<close>. The converter calls them with \<^const>\<open>factor\<close>.
\<close>

definition get_mandel_base_sym :: "real \<Rightarrow> ndarray" where
  "get_mandel_base_sym f =
     (let B = zeros [DIM_MANDEL6, DIM, DIM];
          B = setitem B [0, 0, 0] 1;
          B = setitem B [1, 1, 1] 1;
          B = setitem B [2, 2, 2] 1;
          B = setitem B [3, 1, 2] f;
          B = setitem B [3, 2, 1] f;
          B = setitem B [4, 0, 2] f;
          B = setitem B [4, 2, 0] f;
          B = setitem B [5, 0, 1] f;
          B = setitem B [5, 1, 0] f
      in B)"

text \<open>\<^verbatim>\<open>B[lo:hi, :, :] = src\<close>: the rows \<open>lo..<hi\<close> of \<open>B\<close> are overwritten by the rows of \<open>src\<close>.\<close>

definition setrows :: "ndarray \<Rightarrow> nat \<Rightarrow> nat \<Rightarrow> ndarray \<Rightarrow> ndarray" where
  "setrows B lo hi src =
     B\<lparr>data := map (\<lambda>p. if selected (Slice lo hi) (shape B) p
                          then data src ! (p - lo * prod_list (tl (shape B)))
                          else data B ! p)
                 [0..<length (data B)]\<rparr>"

definition get_mandel_base_skw :: "real \<Rightarrow> ndarray" where
  "get_mandel_base_skw f =
     (let B = zeros [DIM_MANDEL9, DIM, DIM];
          B = setrows B 0 6 (get_mandel_base_sym f);
          B = setitem B [6, 1, 2] (- f);
          B = setitem B [6, 2, 1] f;
          B = setitem B [7, 0, 2] f;
          B = setitem B [7, 2, 0] (- f);
          B = setitem B [8, 0, 1] (- f);
          B = setitem B [8, 1, 0] f
      in B)"

definition BASE6 :: ndarray where
  "BASE6 = get_mandel_base_sym factor"

definition BASE9 :: ndarray where
  "BASE9 = get_mandel_base_skw factor"

subsection \<open>Classification by shape\<close>

datatype ttype = t_2 | t_4 | m6_2 | m6_4 | m9_2 | m9_4

text \<open>
  \<^verbatim>\<open>get_type_by_shape\<close>: a dictionary keyed by the shape tuples \<^verbatim>\<open>2*dim\<close>, \<^verbatim>\<open>4*dim\<close>, ...
  (tuple repetition), looked up with \<^verbatim>\<open>types[inp.shape]\<close>; a missing key raises
  \<^verbatim>\<open>KeyError(inp.shape)\<close>.
\<close>

definition types :: "(nat list \<times> ttype) list" where
  "types =
     (let dim = [DIM]; dim_mandel6 = [DIM_MANDEL6]; dim_mandel9 = [DIM_MANDEL9] in
      [(concat (replicate 2 dim), t_2),
       (concat (replicate 4 dim), t_4),
       (concat (replicate 1 dim_mandel6), m6_2),
       (concat (replicate 2 dim_mandel6), m6_4),
       (concat (replicate 1 dim_mandel9), m9_2),
       (concat (replicate 2 dim_mandel9), m9_4)])"

definition get_type_by_shape :: "ndarray \<Rightarrow> error + ttype" where
  "get_type_by_shape inp =
     (case map_of types (shape inp) of
        None \<Rightarrow> Inl (KeyError (ShapeKey (shape inp)))
      | Some ty \<Rightarrow> Inr ty)"

subsection \<open>The linear maps\<close>

definition pass_through :: "ndarray \<Rightarrow> error + ndarray" where
  "pass_through inp = Inr inp"

text \<open>
  \<^verbatim>\<open>np.einsum('aij, ij ->a', base, inp)\<close>. The ranges of the labels come from the operands.
  The entry points call the four einsum functions only with operands that agree on the
  number of axes and on the extent of every shared label, and then einsum computes the sums
  written here. For any other operands the model reports \<^verbatim>\<open>ValueError\<close>, the error einsum
  raises for incompatible operands; numpy's broadcasting of an extent of 1 is not modelled.
\<close>

definition tensor2_to_mandel :: "ndarray \<Rightarrow> ndarray \<Rightarrow> error + ndarray" where
  "tensor2_to_mandel inp base =
     (let sb = shape base; si = shape inp in
      if length sb = 3 \<and> length si = 2 \<and> sb ! 1 = si ! 0 \<and> sb ! 2 = si ! 1
      then Inr (ndarray1 (sb ! 0)
             (\<lambda>a. \<Sum>i<si ! 0. \<Sum>j<si ! 1. item base [a, i, j] * item inp [i, j]))
      else Inl ValueError)"

text \<open>\<^verbatim>\<open>np.einsum('aij, ijkl, bkl ->ab', base, inp, base)\<close>\<close>

definition tensor4_to_mandel :: "ndarray \<Rightarrow> ndarray \<Rightarrow> error + ndarray" where
  "tensor4_to_mandel inp base =
     (let sb = shape base; si = shape inp in
      if length sb = 3 \<and> length si = 4 \<and> sb ! 1 = si ! 0 \<and> sb ! 2 = si ! 1
         \<and> sb ! 1 = si ! 2 \<and> sb ! 2 = si ! 3
      then Inr (ndarray2 (sb ! 0) (sb ! 0)
             (\<lambda>a b. \<Sum>i<si ! 0. \<Sum>j<si ! 1. \<Sum>k<si ! 2. \<Sum>l<si ! 3.
                      item base [a, i, j] * item inp [i, j, k, l] * item base [b, k, l]))
      else Inl ValueError)"

definition tensor2_to_mandel6 :: "ndarray \<Rightarrow> error + ndarray" where
  "tensor2_to_mandel6 inp = tensor2_to_mandel inp BASE6"

definition tensor2_to_mandel9 :: "ndarray \<Rightarrow> error + ndarray" where
  "tensor2_to_mandel9 inp = tensor2_to_mandel inp BASE9"

definition tensor4_to_mandel6 :: "ndarray \<Rightarrow> error + ndarray" where
  "tensor4_to_mandel6 inp = tensor4_to_mandel inp BASE6"

definition tensor4_to_mandel9 :: "ndarray \<Rightarrow> error + ndarray" where
  "tensor4_to_mandel9 inp = tensor4_to_mandel inp BASE9"

text \<open>\<^verbatim>\<open>np.einsum('ajk, a->jk', base, inp)\<close>\<close>

definition mandel_2_to_tensor :: "ndarray \<Rightarrow> ndarray \<Rightarrow> error + ndarray" where
  "mandel_2_to_tensor inp base =
     (let sb = shape base; si = shape inp in
      if length sb = 3 \<and> length si = 1 \<and> sb ! 0 = si ! 0
      then Inr (ndarray2 (sb ! 1) (sb ! 2)
             (\<lambda>j k. \<Sum>a<si ! 0. item base [a, j, k] * item inp [a]))
      else Inl ValueError)"

text \<open>\<^verbatim>\<open>np.einsum('ajk, ab, bmn->jkmn', base, inp, base)\<close>\<close>

definition mandel_4_to_tensor :: "ndarray \<Rightarrow> ndarray \<Rightarrow> error + ndarray" where
  "mandel_4_to_tensor inp base =
     (let sb = shape base; si = shape inp in
      if length sb = 3 \<and> length si = 2 \<and> sb ! 0 = si ! 0 \<and> sb ! 0 = si ! 1
      then Inr (ndarray4 (sb ! 1) (sb ! 2) (sb ! 1) (sb ! 2)
             (\<lambda>j k m n. \<Sum>a<si ! 0. \<Sum>b<si ! 1.
                      item base [a, j, k] * item inp [a, b] * item base [b, m, n]))
      else Inl ValueError)"

definition mandel6_2_to_tensor :: "ndarray \<Rightarrow> error + ndarray" where
  "mandel6_2_to_tensor inp = mandel_2_to_tensor inp BASE6"

definition mandel6_4_to_tensor :: "ndarray \<Rightarrow> error + ndarray" where
  "mandel6_4_to_tensor inp = mandel_4_to_tensor inp BASE6"

definition mandel9_2_to_tensor :: "ndarray \<Rightarrow> error + ndarray" where
  "mandel9_2_to_tensor inp = mandel_2_to_tensor inp BASE9"

definition mandel9_4_to_tensor :: "ndarray \<Rightarrow> error + ndarray" where
  "mandel9_4_to_tensor inp = mandel_4_to_tensor inp BASE9"

text \<open>
  Zero padding: \<^verbatim>\<open>zeros[self.SLICE6] = inp\<close> and \<^verbatim>\<open>zeros[self.SLICE6, self.SLICE6] = inp\<close>.
  The entry points call these only with \<open>inp\<close> of shape \<open>(6,)\<close> and \<open>(6, 6)\<close>, for which the
  assignment copies entry by entry. For any other shape the model reports \<^verbatim>\<open>ValueError\<close>,
  the error numpy raises when \<open>inp\<close> does not fit the target region; numpy's broadcasting of
  smaller inputs is not modelled.
\<close>

definition mandel6_2_to_mandel9 :: "ndarray \<Rightarrow> error + ndarray" where
  "mandel6_2_to_mandel9 inp =
     (if shape inp = [6]
      then Inr (setrows (zeros [DIM_MANDEL9]) (fst SLICE6) (snd SLICE6) inp)
      else Inl ValueError)"

definition mandel6_4_to_mandel9 :: "ndarray \<Rightarrow> error + ndarray" where
  "mandel6_4_to_mandel9 inp =
     (if shape inp = [6, 6]
      then Inr (ndarray2 DIM_MANDEL9 DIM_MANDEL9
             (\<lambda>r c. if selected (Slice2 (fst SLICE6) (snd SLICE6) (fst SLICE6) (snd SLICE6))
                          [DIM_MANDEL9, DIM_MANDEL9] (r * DIM_MANDEL9 + c)
                    then item inp [r, c] else 0))
      else Inl ValueError)"

text \<open>Truncation: \<^verbatim>\<open>inp[self.SLICE6]\<close> and \<^verbatim>\<open>inp[self.SLICE6, self.SLICE6]\<close>.\<close>

definition mandel9_2_to_mandel6 :: "ndarray \<Rightarrow> error + ndarray" where
  "mandel9_2_to_mandel6 inp = getitem inp (Slice (fst SLICE6) (snd SLICE6))"

definition mandel9_4_to_mandel6 :: "ndarray \<Rightarrow> error + ndarray" where
  "mandel9_4_to_mandel6 inp =
     getitem inp (Slice2 (fst SLICE6) (snd SLICE6) (fst SLICE6) (snd SLICE6))"

subsection \<open>Dispatch and the three entry points\<close>

fun to_mandel6_functions :: "ttype \<Rightarrow> ndarray \<Rightarrow> error + ndarray" where
  "to_mandel6_functions t_2 = tensor2_to_mandel6"
| "to_mandel6_functions t_4 = tensor4_to_mandel6"
| "to_mandel6_functions m6_2 = pass_through"
| "to_mandel6_functions m6_4 = pass_through"
| "to_mandel6_functions m9_2 = mandel9_2_to_mandel6"
| "to_mandel6_functions m9_4 = mandel9_4_to_mandel6"

fun to_mandel9_functions :: "ttype \<Rightarrow> ndarray \<Rightarrow> error + ndarray" where
  "to_mandel9_functions t_2 = tensor2_to_mandel9"
| "to_mandel9_functions t_4 = tensor4_to_mandel9"
| "to_mandel9_functions m6_2 = mandel6_2_to_mandel9"
| "to_mandel9_functions m6_4 = mandel6_4_to_mandel9"
| "to_mandel9_functions m9_2 = pass_through"
| "to_mandel9_functions m9_4 = pass_through"

fun to_tensor_functions :: "ttype \<Rightarrow> ndarray \<Rightarrow> error + ndarray" where
  "to_tensor_functions t_2 = pass_through"
| "to_tensor_functions t_4 = pass_through"
| "to_tensor_functions m6_2 = mandel6_2_to_tensor"
| "to_tensor_functions m6_4 = mandel6_4_to_tensor"
| "to_tensor_functions m9_2 = mandel9_2_to_tensor"
| "to_tensor_functions m9_4 = mandel9_4_to_tensor"

definition get_to_mandel6_func :: "ndarray \<Rightarrow> error + (ndarray \<Rightarrow> error + ndarray)" where
  "get_to_mandel6_func inp =
     (case get_type_by_shape inp of
        Inl e \<Rightarrow> Inl e
      | Inr type_ \<Rightarrow> Inr (to_mandel6_functions type_))"

definition get_to_mandel9_func :: "ndarray \<Rightarrow> error + (ndarray \<Rightarrow> error + ndarray)" where
  "get_to_mandel9_func inp =
     (case get_type_by_shape inp of
        Inl e \<Rightarrow> Inl e
      | Inr type_ \<Rightarrow> Inr (to_mandel9_functions type_))"

definition get_to_tensor_func :: "ndarray \<Rightarrow> error + (ndarray \<Rightarrow> error + ndarray)" where
  "get_to_tensor_func inp =
     (case get_type_by_shape inp of
        Inl e \<Rightarrow> Inl e
      | Inr type_ \<Rightarrow> Inr (to_tensor_functions type_))"

text \<open>
  \<^verbatim>\<open>to_mandel6\<close>, \<^verbatim>\<open>to_mandel9\<close>, \<^verbatim>\<open>to_tensor\<close>: \<^verbatim>\<open>f = self.get_..._func(inp=inp)\<close>,
  then \<^verbatim>\<open>return f(inp=inp)\<close>. The flag \<^verbatim>\<open>verbose\<close> of \<^verbatim>\<open>to_mandel9\<close> only prints a message.
\<close>

definition to_mandel6 :: "ndarray \<Rightarrow> error + ndarray" where
  "to_mandel6 inp = (case get_to_mandel6_func inp of Inl e \<Rightarrow> Inl e | Inr f \<Rightarrow> f inp)"

definition to_mandel9 :: "ndarray \<Rightarrow> error + ndarray" where
  "to_mandel9 inp = (case get_to_mandel9_func inp of Inl e \<Rightarrow> Inl e | Inr f \<Rightarrow> f inp)"

definition to_tensor :: "ndarray \<Rightarrow> error + ndarray" where
  "to_tensor inp = (case get_to_tensor_func inp of Inl e \<Rightarrow> Inl e | Inr f \<Rightarrow> f inp)"

text \<open>Running one conversion after another; an error of the first ends the run.\<close>

definition and_then ::
  "error + ndarray \<Rightarrow> (ndarray \<Rightarrow> error + ndarray) \<Rightarrow> error + ndarray" where
  "and_then r f = (case r of Inl e \<Rightarrow> Inl e | Inr x \<Rightarrow> f x)"

section \<open>The Voigt extension\<close>

text \<open>
  \<^verbatim>\<open>VoigtConverter.__init__\<close>: the regions \<^verbatim>\<open>shear\<close>, \<^verbatim>\<open>quadrant1\<close> .. \<^verbatim>\<open>quadrant4\<close> and the
  dictionary \<^verbatim>\<open>factors_mandel_to_voigt\<close>, an association list here.
\<close>

definition shear :: position where
  "shear = Slice 3 6"

definition quadrant1 :: position where
  "quadrant1 = Slice2 0 3 0 3"

definition quadrant2 :: position where
  "quadrant2 = Slice2 0 3 3 6"

definition quadrant3 :: position where
  "quadrant3 = Slice2 3 6 0 3"

definition quadrant4 :: position where
  "quadrant4 = Slice2 3 6 3 6"

definition factors_mandel_to_voigt :: "(string \<times> (position \<times> real) list) list" where
  "factors_mandel_to_voigt =
     [(''stress'', [(shear, 1 / sqrt 2)]),
      (''strain'', [(shear, sqrt 2)]),
      (''stiffness'', [(quadrant2, 1 / sqrt 2), (quadrant3, 1 / sqrt 2), (quadrant4, 1 / 2)]),
      (''compliance'', [(quadrant2, sqrt 2), (quadrant3, sqrt 2), (quadrant4, 2)])]"

text \<open>
  One turn of the loop body \<^verbatim>\<open>out[position] = inp[position] * c\<close>, where \<open>out\<close> is the copy
  being filled and \<open>c\<close> the multiplier. \<^verbatim>\<open>inp[position]\<close> raises \<^verbatim>\<open>IndexError\<close> ("too many
  indices for array") when \<open>inp\<close> has fewer axes than the index expression has slices.
\<close>

definition scale_region :: "ndarray \<Rightarrow> position \<Rightarrow> (real \<Rightarrow> real) \<Rightarrow> ndarray \<Rightarrow> error + ndarray" where
  "scale_region inp pos c out =
     (if ndim inp < naxes pos then Inl IndexError
      else Inr (out\<lparr>data := map (\<lambda>p. if selected pos (shape inp) p
                                       then c (data inp ! p) else data out ! p)
                             [0..<length (data out)]\<rparr>))"

fun scale_loop ::
  "ndarray \<Rightarrow> (real \<Rightarrow> real \<Rightarrow> real) \<Rightarrow> (position \<times> real) list \<Rightarrow> ndarray \<Rightarrow> error + ndarray" where
  "scale_loop inp op [] out = Inr out"
| "scale_loop inp op ((pos, fac) # rest) out =
     (case scale_region inp pos (\<lambda>x. op x fac) out of
        Inl e \<Rightarrow> Inl e
      | Inr out' \<Rightarrow> scale_loop inp op rest out')"

text \<open>
  \<^verbatim>\<open>mandel6_to_voigt\<close>: \<^verbatim>\<open>voigt = inp.copy()\<close>, then for each \<^verbatim>\<open>(position, factor)\<close> of
  \<^verbatim>\<open>self.factors_mandel_to_voigt[voigt_type]\<close> (a \<^verbatim>\<open>KeyError\<close> for an unknown type) the
  assignment \<^verbatim>\<open>voigt[position] = inp[position] * factor\<close>.
\<close>

definition mandel6_to_voigt :: "ndarray \<Rightarrow> string \<Rightarrow> error + ndarray" where
  "mandel6_to_voigt inp voigt_type =
     (case map_of factors_mandel_to_voigt voigt_type of
        None \<Rightarrow> Inl (KeyError (StrKey voigt_type))
      | Some fs \<Rightarrow> scale_loop inp (\<lambda>x fac. x * fac) fs inp)"

text \<open>
  \<^verbatim>\<open>voigt_to_mandel6\<close>: the same loop with \<^verbatim>\<open>mandel[position] = inp[position] * 1./factor\<close>,
  which Python reads as \<^verbatim>\<open>(inp[position] * 1.) / factor\<close>.
\<close>

definition voigt_to_mandel6 :: "ndarray \<Rightarrow> string \<Rightarrow> error + ndarray" where
  "voigt_to_mandel6 inp voigt_type =
     (case map_of factors_mandel_to_voigt voigt_type of
        None \<Rightarrow> Inl (KeyError (StrKey voigt_type))
      | Some fs \<Rightarrow> scale_loop inp (\<lambda>x fac. x * 1 / fac) fs inp)"

section \<open>Notions of the specification\<close>

text \<open>
  The unit vectors \<open>e\<^sub>i\<close>, the dyadic product, and the dyads the specification lists. The
  specification numbers axes from 1; the off-diagonal index pairs (2,3), (1,3), (1,2) are
  (1,2), (0,2), (0,1) when counted from 0.
\<close>

definition unit_vec :: "nat \<Rightarrow> nat \<Rightarrow> real" where
  "unit_vec i m = (if m = i then 1 else 0)"

definition dyad :: "(nat \<Rightarrow> real) \<Rightarrow> (nat \<Rightarrow> real) \<Rightarrow> nat \<Rightarrow> nat \<Rightarrow> real" where
  "dyad u v i j = u i * v j"

definition offdiag_pairs :: "(nat \<times> nat) list" where
  "offdiag_pairs = [(1, 2), (0, 2), (0, 1)]"

definition sym_dyad :: "nat \<times> nat \<Rightarrow> nat \<Rightarrow> nat \<Rightarrow> real" where
  "sym_dyad jk i i' =
     (dyad (unit_vec (fst jk)) (unit_vec (snd jk)) i i'
      + dyad (unit_vec (snd jk)) (unit_vec (fst jk)) i i') / sqrt 2"

definition skw_dyad :: "nat \<times> nat \<Rightarrow> nat \<Rightarrow> nat \<Rightarrow> real" where
  "skw_dyad jk i i' =
     (dyad (unit_vec (fst jk)) (unit_vec (snd jk)) i i'
      - dyad (unit_vec (snd jk)) (unit_vec (fst jk)) i i') / sqrt 2"

definition spec_symmetric_basis :: "nat \<Rightarrow> nat \<Rightarrow> nat \<Rightarrow> real" where
  "spec_symmetric_basis a =
     (if a < 3 then dyad (unit_vec a) (unit_vec a) else sym_dyad (offdiag_pairs ! (a - 3)))"

text \<open>The extended basis, with the ordered index pairs of the three skew dyads as a parameter.\<close>

definition spec_extended_basis :: "(nat \<times> nat) list \<Rightarrow> nat \<Rightarrow> nat \<Rightarrow> nat \<Rightarrow> real" where
  "spec_extended_basis skw_pairs a =
     (if a < 6 then spec_symmetric_basis a else skw_dyad (skw_pairs ! (a - 6)))"

text \<open>
  The ordered pairs the code uses for dyads 7, 8, 9: (3,2), (1,3), (2,1) counted from 1, as
  in the docstring of the class (\<open>B\<^sub>7 = \<surd>2/2 (-e\<^sub>2\<otimes>e\<^sub>3 + e\<^sub>3\<otimes>e\<^sub>2)\<close>, ...).
\<close>

definition code_skw_pairs :: "(nat \<times> nat) list" where
  "code_skw_pairs = [(2, 1), (0, 2), (1, 0)]"

text \<open>An array of shape \<open>(K, 3, 3)\<close> holds the dyads \<open>F 0 .. F (K - 1)\<close>.\<close>

definition holds_dyads :: "ndarray \<Rightarrow> nat \<Rightarrow> (nat \<Rightarrow> nat \<Rightarrow> nat \<Rightarrow> real) \<Rightarrow> bool" where
  "holds_dyads B K F \<longleftrightarrow>
     shape B = [K, 3, 3] \<and> wellformed B \<and>
     (\<forall>a<K. \<forall>i<3. \<forall>j<3. item B [a, i, j] = F a i j)"

text \<open>The pairwise product of the orthonormality property: \<open>\<Sum>\<^sub>i\<^sub>j B[a,i,j] * B[b,i,j]\<close>.\<close>

definition dyad_dot :: "ndarray \<Rightarrow> nat \<Rightarrow> nat \<Rightarrow> real" where
  "dyad_dot B a b = (\<Sum>i<DIM. \<Sum>j<DIM. item B [a, i, j] * item B [b, i, j])"

definition kronecker :: "nat \<Rightarrow> nat \<Rightarrow> real" where
  "kronecker a b = (if a = b then 1 else 0)"

text \<open>
  Full tensors of order 2 and 4, minor symmetry (invariance under a swap within the first or
  within the second index pair), and the symmetrisation over the minor index pairs that the
  test \<^verbatim>\<open>test_tensor_to_mandel6_to_tensor\<close> builds with four transposes.
\<close>

definition is_tensor2 :: "ndarray \<Rightarrow> bool" where
  "is_tensor2 T \<longleftrightarrow> shape T = [3, 3] \<and> wellformed T"

definition is_tensor4 :: "ndarray \<Rightarrow> bool" where
  "is_tensor4 T \<longleftrightarrow> shape T = [3, 3, 3, 3] \<and> wellformed T"

definition minor_symmetric :: "ndarray \<Rightarrow> bool" where
  "minor_symmetric T \<longleftrightarrow>
     (\<forall>i<3. \<forall>j<3. \<forall>k<3. \<forall>l<3.
        item T [i, j, k, l] = item T [j, i, k, l] \<and> item T [i, j, k, l] = item T [i, j, l, k])"

definition symmetrize_minor :: "ndarray \<Rightarrow> ndarray" where
  "symmetrize_minor T =
     ndarray4 3 3 3 3 (\<lambda>i j k l.
       (item T [i, j, k, l] + item T [j, i, k, l] + item T [i, j, l, k] + item T [j, i, l, k]) / 4)"

text \<open>The first six components of a vector and the top-left \<open>6\<times>6\<close> block of a matrix.\<close>

definition first6 :: "ndarray \<Rightarrow> ndarray" where
  "first6 x = \<lparr>shape = [6], data = take 6 (data x)\<rparr>"

definition top_left_6x6 :: "ndarray \<Rightarrow> ndarray" where
  "top_left_6x6 x = ndarray2 6 6 (\<lambda>r c. item x [r, c])"

text \<open>
  Sample inputs: \<^verbatim>\<open>np.arange(9).reshape(3, 3)\<close> of the class docstring, and two fourth-order
  tensors with a single non-zero entry.
\<close>

definition arange9 :: ndarray where
  "arange9 = \<lparr>shape = [3, 3], data = [0, 1, 2, 3, 4, 5, 6, 7, 8]\<rparr>"

definition unit_0100 :: ndarray where
  "unit_0100 = setitem (zeros [3, 3, 3, 3]) [0, 1, 0, 0] 1"


text \<open>The six shapes the specification recognises, and the four quantity keys.\<close>

definition recognized_shapes :: "nat list set" where
  "recognized_shapes = {[3, 3], [3, 3, 3, 3], [6], [6, 6], [9], [9, 9]}"

definition quantities :: "string set" where
  "quantities = {''stress'', ''strain'', ''stiffness'', ''compliance''}"


definition is_mandel6_matrix :: "ndarray \<Rightarrow> bool" where
  "is_mandel6_matrix x \<longleftrightarrow> shape x = [6, 6] \<and> wellformed x"



definition scale_rows :: "real \<Rightarrow> ndarray \<Rightarrow> ndarray" where
  "scale_rows c x = ndarray2 6 6 (\<lambda>r col. if 3 \<le> r then item x [r, col] * c else item x [r, col])"

text \<open>The number of axes the segments of a quantity index.\<close>

definition axes_needed :: "string \<Rightarrow> nat" where
  "axes_needed q = (if q = ''stress'' \<or> q = ''strain'' then 1 else 2)"

text \<open>Sample Mandel6 inputs.\<close>

definition vec123456 :: ndarray where
  "vec123456 = \<lparr>shape = [6], data = [1, 2, 3, 4, 5, 6]\<rparr>"

definition ones66 :: ndarray where
  "ones66 = \<lparr>shape = [6, 6], data = replicate 36 1\<rparr>"

text \<open>
  The arrays of \<^verbatim>\<open>test_level2_mandel6_tensor\<close> and \<^verbatim>\<open>test_level4_mandel6_tensor\<close> in
  \<^verbatim>\<open>test/test_notation.py\<close>.
\<close>

definition level2_tensor :: ndarray where
  "level2_tensor = \<lparr>shape = [3, 3], data = [1, 6, 5,  6, 2, 4,  5, 4, 3]\<rparr>"

definition level2_mandel :: ndarray where
  "level2_mandel = \<lparr>shape = [6], data = [1, 2, 3, sqrt 2 * 4, sqrt 2 * 5, sqrt 2 * 6]\<rparr>"

definition ones3333 :: ndarray where
  "ones3333 = \<lparr>shape = [3, 3, 3, 3], data = replicate 81 1\<rparr>"

definition level4_mandel :: ndarray where
  "level4_mandel = ndarray2 6 6 (\<lambda>a b. (if a < 3 then 1 else sqrt 2) * (if b < 3 then 1 else sqrt 2))"

section \<open>Closed forms used in the proofs\<close>

text \<open>The entries of the two bases as functions of the indices, for a factor \<open>f\<close>.\<close>

definition sym_entry :: "real \<Rightarrow> nat \<Rightarrow> nat \<Rightarrow> nat \<Rightarrow> real" where
  "sym_entry f a i j =
     (if a < 3 then (if i = a \<and> j = a then 1 else 0)
      else if i \<noteq> j \<and> i + j + a = 6 then f else 0)"

definition skw_entry :: "real \<Rightarrow> nat \<Rightarrow> nat \<Rightarrow> nat \<Rightarrow> real" where
  "skw_entry f a i j =
     (if a < 6 then sym_entry f a i j
      else if i \<noteq> j \<and> i + j + a = 9 then (if (j + 3 - i) mod 3 = 1 then - f else f) else 0)"

text \<open>The array \<open>base\<close> has \<open>K\<close> dyads with entries \<open>E\<close>.\<close>

definition base_entries :: "ndarray \<Rightarrow> nat \<Rightarrow> (nat \<Rightarrow> nat \<Rightarrow> nat \<Rightarrow> real) \<Rightarrow> bool" where
  "base_entries base K E \<longleftrightarrow>
     shape base = [K, 3, 3] \<and> (\<forall>a<K. \<forall>i<3. \<forall>j<3. item base [a, i, j] = E a i j)"

text \<open>Projection on the span of \<open>K\<close> dyads followed by expansion in them.\<close>

definition proj ::
  "nat \<Rightarrow> (nat \<Rightarrow> nat \<Rightarrow> nat \<Rightarrow> real) \<Rightarrow> (nat \<Rightarrow> nat \<Rightarrow> real) \<Rightarrow> nat \<Rightarrow> nat \<Rightarrow> real" where
  "proj K B X j k = (\<Sum>a<K. B a j k * (\<Sum>i<3. \<Sum>i'<3. B a i i' * X i i'))"

section \<open>The base dyads, entry by entry\<close>

lemma nat_less_3: "(i::nat) < 3 \<longleftrightarrow> i = 0 \<or> i = 1 \<or> i = 2"
  by arith

lemma nat_less_6: "(a::nat) < 6 \<longleftrightarrow> a = 0 \<or> a = 1 \<or> a = 2 \<or> a = 3 \<or> a = 4 \<or> a = 5"
  by arith

lemma nat_less_9:
  "(a::nat) < 9 \<longleftrightarrow>
     a = 0 \<or> a = 1 \<or> a = 2 \<or> a = 3 \<or> a = 4 \<or> a = 5 \<or> a = 6 \<or> a = 7 \<or> a = 8"
  by arith

lemma sum_lessThan_3: "(\<Sum>i<(3::nat). g i) = g 0 + g 1 + (g 2 :: real)"
  by (simp add: eval_nat_numeral)

lemma sum_lessThan_6: "(\<Sum>i<(6::nat). g i) = g 0 + g 1 + g 2 + g 3 + g 4 + (g 5 :: real)"
  by (simp add: eval_nat_numeral)


lemma data_get_mandel_base_sym:
  "data (get_mandel_base_sym f) =
     [1, 0, 0,  0, 0, 0,  0, 0, 0,
      0, 0, 0,  0, 1, 0,  0, 0, 0,
      0, 0, 0,  0, 0, 0,  0, 0, 1,
      0, 0, 0,  0, 0, f,  0, f, 0,
      0, 0, f,  0, 0, 0,  f, 0, 0,
      0, f, 0,  f, 0, 0,  0, 0, 0]"
  by (simp add: get_mandel_base_sym_def zeros_def setitem_def ravel_def
      DIM_def DIM_MANDEL6_def eval_nat_numeral)

lemma shape_get_mandel_base_sym: "shape (get_mandel_base_sym f) = [6, 3, 3]"
  by (simp add: get_mandel_base_sym_def zeros_def setitem_def DIM_def DIM_MANDEL6_def)

lemma data_get_mandel_base_skw:
  "data (get_mandel_base_skw f) =
     [1, 0, 0,  0, 0, 0,  0, 0, 0,
      0, 0, 0,  0, 1, 0,  0, 0, 0,
      0, 0, 0,  0, 0, 0,  0, 0, 1,
      0, 0, 0,  0, 0, f,  0, f, 0,
      0, 0, f,  0, 0, 0,  f, 0, 0,
      0, f, 0,  f, 0, 0,  0, 0, 0,
      0, 0, 0,  0, 0, - f,  0, f, 0,
      0, 0, f,  0, 0, 0,  - f, 0, 0,
      0, - f, 0,  f, 0, 0,  0, 0, 0]"
  by (simp add: get_mandel_base_skw_def zeros_def setitem_def setrows_def ravel_def Let_def
      data_get_mandel_base_sym shape_get_mandel_base_sym DIM_def DIM_MANDEL9_def upt_rec)

lemma shape_get_mandel_base_skw: "shape (get_mandel_base_skw f) = [9, 3, 3]"
  by (simp add: get_mandel_base_skw_def zeros_def setitem_def setrows_def
      DIM_def DIM_MANDEL9_def Let_def)

lemma item_sym:
  "a < 6 \<Longrightarrow> i < 3 \<Longrightarrow> j < 3 \<Longrightarrow>
     item (get_mandel_base_sym f) [a, i, j] = sym_entry f a i j"
  unfolding nat_less_3 nat_less_6
  by (elim disjE; simp add: item_def ravel_def shape_get_mandel_base_sym
      data_get_mandel_base_sym sym_entry_def)

lemma item_skw:
  "a < 9 \<Longrightarrow> i < 3 \<Longrightarrow> j < 3 \<Longrightarrow>
     item (get_mandel_base_skw f) [a, i, j] = skw_entry f a i j"
  unfolding nat_less_3 nat_less_9
  by (elim disjE; simp add: item_def ravel_def shape_get_mandel_base_skw
      data_get_mandel_base_skw sym_entry_def skw_entry_def)

lemma factor_inverse: "factor = 1 / sqrt 2"
  by (simp add: factor_def real_div_sqrt)

lemma sym_entry_spec:
  "a < 6 \<Longrightarrow> i < 3 \<Longrightarrow> j < 3 \<Longrightarrow> sym_entry factor a i j = spec_symmetric_basis a i j"
  unfolding nat_less_3 nat_less_6
  by (elim disjE; simp add: sym_entry_def spec_symmetric_basis_def sym_dyad_def dyad_def
      unit_vec_def offdiag_pairs_def factor_inverse)

lemma skw_entry_spec:
  "a < 9 \<Longrightarrow> i < 3 \<Longrightarrow> j < 3 \<Longrightarrow>
     skw_entry factor a i j = spec_extended_basis code_skw_pairs a i j"
  unfolding nat_less_3 nat_less_9
  by (elim disjE; simp add: skw_entry_def sym_entry_def spec_extended_basis_def
      spec_symmetric_basis_def sym_dyad_def skw_dyad_def dyad_def unit_vec_def
      offdiag_pairs_def code_skw_pairs_def factor_inverse)

lemma wellformed_BASE6: "wellformed BASE6"
  by (simp add: wellformed_def BASE6_def shape_get_mandel_base_sym data_get_mandel_base_sym)

lemma wellformed_BASE9: "wellformed BASE9"
  by (simp add: wellformed_def BASE9_def shape_get_mandel_base_skw data_get_mandel_base_skw)

text \<open>
  C3, as amended. The symmetric basis is, in this order, \<open>e\<^sub>i\<otimes>e\<^sub>i\<close> for the three axes and
  \<open>(e\<^sub>j\<otimes>e\<^sub>k + e\<^sub>k\<otimes>e\<^sub>j)/\<surd>2\<close> for the pairs (2,3), (1,3), (1,2). The extended basis repeats these
  six dyads and adds \<open>(e\<^sub>j\<otimes>e\<^sub>k - e\<^sub>k\<otimes>e\<^sub>j)/\<surd>2\<close> for the ordered pairs (3,2), (1,3), (2,1): dyads 7
  and 9 have the sign opposite to the one the pairs (2,3) and (1,2) would give.
\<close>

theorem basis_dyads_as_built:
  "holds_dyads BASE6 6 spec_symmetric_basis
   \<and> holds_dyads BASE9 9 (spec_extended_basis code_skw_pairs)
   \<and> (\<forall>a<6. \<forall>i<3. \<forall>j<3. item BASE9 [a, i, j] = item BASE6 [a, i, j])"
proof (intro conjI)
  show "holds_dyads BASE6 6 spec_symmetric_basis"
    using wellformed_BASE6
    by (simp add: holds_dyads_def BASE6_def shape_get_mandel_base_sym item_sym sym_entry_spec)
  show "holds_dyads BASE9 9 (spec_extended_basis code_skw_pairs)"
    using wellformed_BASE9
    by (simp add: holds_dyads_def BASE9_def shape_get_mandel_base_skw item_skw skw_entry_spec)
  show "\<forall>a<6. \<forall>i<3. \<forall>j<3. item BASE9 [a, i, j] = item BASE6 [a, i, j]"
    by (simp add: BASE6_def BASE9_def item_sym item_skw skw_entry_def)
qed

theorem basis_dyads_as_built_witness:
  "item BASE6 [3, 1, 2] = sqrt 2 / 2 \<and> item BASE9 [6, 2, 1] = sqrt 2 / 2
   \<and> item BASE9 [6, 1, 2] = - (sqrt 2 / 2) \<and> item BASE9 [4, 0, 2] = item BASE6 [4, 0, 2]"
  using basis_dyads_as_built
  by (simp add: holds_dyads_def spec_extended_basis_def spec_symmetric_basis_def sym_dyad_def
      skw_dyad_def dyad_def unit_vec_def offdiag_pairs_def code_skw_pairs_def real_div_sqrt)

text \<open>
  C3, as stated, fails: with the pair (2,3) the seventh dyad would have \<open>+1/\<surd>2\<close> at row 2,
  column 3; the code stores \<open>-\<surd>2/2\<close> there.
\<close>

theorem skew_dyad_sign_counterexample:
  "item BASE9 [6, 1, 2] = - (sqrt 2 / 2)
   \<and> spec_extended_basis offdiag_pairs 6 1 2 = sqrt 2 / 2
   \<and> \<not> holds_dyads BASE9 9 (spec_extended_basis offdiag_pairs)"
proof -
  have a: "item BASE9 [6, 1, 2] = - (sqrt 2 / 2)"
    by (simp add: BASE9_def item_skw skw_entry_def factor_def)
  have b: "spec_extended_basis offdiag_pairs 6 1 2 = sqrt 2 / 2"
    by (simp add: spec_extended_basis_def skw_dyad_def dyad_def unit_vec_def
        offdiag_pairs_def real_div_sqrt)
  have "\<not> holds_dyads BASE9 9 (spec_extended_basis offdiag_pairs)"
  proof
    assume "holds_dyads BASE9 9 (spec_extended_basis offdiag_pairs)"
    then have "item BASE9 [6, 1, 2] = spec_extended_basis offdiag_pairs 6 1 2"
      by (simp add: holds_dyads_def)
    moreover have "0 < sqrt (2::real)"
      by simp
    ultimately show False
      using a b by linarith
  qed
  with a b show ?thesis by simp
qed

section \<open>Orthonormality\<close>

lemma dyad_dot_sym:
  "a < 6 \<Longrightarrow> b < 6 \<Longrightarrow> dyad_dot (get_mandel_base_sym f) a b =
     (if a = b then (if a < 3 then 1 else 2 * f * f) else 0)"
  unfolding nat_less_6
  by (elim disjE; simp add: dyad_dot_def DIM_def sum_lessThan_3 item_sym sym_entry_def)

lemma dyad_dot_skw:
  "a < 9 \<Longrightarrow> b < 9 \<Longrightarrow> dyad_dot (get_mandel_base_skw f) a b =
     (if a = b then (if a < 3 then 1 else 2 * f * f) else 0)"
  unfolding nat_less_9
  by (elim disjE; simp add: dyad_dot_def DIM_def sum_lessThan_3 item_skw skw_entry_def
      sym_entry_def)

lemma factor_sq: "2 * factor * factor = 1"
  by (simp add: factor_def)

lemma two_f_sq_near_one:
  assumes "\<bar>f - factor\<bar> \<le> 1 / 10 ^ 11"
  shows "\<bar>2 * f * f - 1\<bar> < 1 / 10 ^ 10"
proof -
  have s: "0 \<le> factor" "factor \<le> 1"
    by (simp_all add: factor_def real_le_lsqrt)
  have "2 * f * f - 1 = 2 * ((f - factor) * (f + factor))"
    using factor_sq by (simp add: algebra_simps)
  then have "\<bar>2 * f * f - 1\<bar> = 2 * (\<bar>f - factor\<bar> * \<bar>f + factor\<bar>)"
    by (simp add: abs_mult)
  moreover have "\<bar>f - factor\<bar> \<le> 1"
    using assms by (rule order_trans) simp
  then have "\<bar>f + factor\<bar> \<le> 3"
    using s by linarith
  then have "\<bar>f - factor\<bar> * \<bar>f + factor\<bar> \<le> 1 / 10 ^ 11 * 3"
    using assms by (intro mult_mono) simp_all
  ultimately show ?thesis
    by simp
qed

lemma dyad_dot_near:
  assumes "\<bar>f - factor\<bar> \<le> 1 / 10 ^ 11"
  shows "a < 6 \<Longrightarrow> b < 6 \<Longrightarrow> \<bar>dyad_dot (get_mandel_base_sym f) a b - kronecker a b\<bar> < 1 / 10 ^ 10"
    and "a < 9 \<Longrightarrow> b < 9 \<Longrightarrow> \<bar>dyad_dot (get_mandel_base_skw f) a b - kronecker a b\<bar> < 1 / 10 ^ 10"
  using two_f_sq_near_one[OF assms]
  by (simp_all add: dyad_dot_sym dyad_dot_skw kronecker_def)

text \<open>
  C5. For both bases the pairwise products are 1 on the diagonal and 0 off it; in exact
  arithmetic the error is zero, hence below \<open>10\<^sup>-\<^sup>1\<^sup>0\<close>. The bound also holds for bases built
  with any factor within \<open>10\<^sup>-\<^sup>1\<^sup>1\<close> of \<open>\<surd>2/2\<close>, which covers the rounding of
  \<^verbatim>\<open>np.sqrt(2.) / 2.\<close> to \<^verbatim>\<open>float64\<close>.
\<close>

theorem bases_orthonormal:
  "(\<forall>a<6. \<forall>b<6. dyad_dot BASE6 a b = kronecker a b
        \<and> \<bar>dyad_dot BASE6 a b - kronecker a b\<bar> < 1 / 10 ^ 10)
   \<and> (\<forall>a<9. \<forall>b<9. dyad_dot BASE9 a b = kronecker a b
        \<and> \<bar>dyad_dot BASE9 a b - kronecker a b\<bar> < 1 / 10 ^ 10)
   \<and> (\<forall>f. \<bar>f - factor\<bar> \<le> 1 / 10 ^ 11 \<longrightarrow>
        (\<forall>a<6. \<forall>b<6.
           \<bar>dyad_dot (get_mandel_base_sym f) a b - kronecker a b\<bar> < 1 / 10 ^ 10)
        \<and> (\<forall>a<9. \<forall>b<9.
           \<bar>dyad_dot (get_mandel_base_skw f) a b - kronecker a b\<bar> < 1 / 10 ^ 10))"
proof (intro conjI allI impI)
  fix a b :: nat
  assume "a < 6" "b < 6"
  then show "dyad_dot BASE6 a b = kronecker a b"
    by (simp add: BASE6_def dyad_dot_sym factor_sq kronecker_def)
  then show "\<bar>dyad_dot BASE6 a b - kronecker a b\<bar> < 1 / 10 ^ 10"
    by simp
next
  fix a b :: nat
  assume "a < 9" "b < 9"
  then show "dyad_dot BASE9 a b = kronecker a b"
    by (simp add: BASE9_def dyad_dot_skw factor_sq kronecker_def)
  then show "\<bar>dyad_dot BASE9 a b - kronecker a b\<bar> < 1 / 10 ^ 10"
    by simp
next
  fix f :: real and a b :: nat
  assume "\<bar>f - factor\<bar> \<le> 1 / 10 ^ 11" "a < 6" "b < 6"
  then show "\<bar>dyad_dot (get_mandel_base_sym f) a b - kronecker a b\<bar> < 1 / 10 ^ 10"
    by (rule dyad_dot_near)
next
  fix f :: real and a b :: nat
  assume "\<bar>f - factor\<bar> \<le> 1 / 10 ^ 11" "a < 9" "b < 9"
  then show "\<bar>dyad_dot (get_mandel_base_skw f) a b - kronecker a b\<bar> < 1 / 10 ^ 10"
    by (rule dyad_dot_near)
qed

theorem bases_orthonormal_witness:
  "dyad_dot BASE6 3 3 = 1 \<and> dyad_dot BASE6 3 4 = 0 \<and> dyad_dot BASE9 6 6 = 1
   \<and> dyad_dot BASE9 3 6 = 0 \<and> \<bar>dyad_dot BASE9 8 8 - 1\<bar> < 1 / 10 ^ 10
   \<and> \<bar>dyad_dot (get_mandel_base_skw (factor + 1 / 2 ^ 53)) 7 7 - 1\<bar> < 1 / 10 ^ 10"
proof -
  note t = bases_orthonormal
  have "\<bar>factor + 1 / 2 ^ 53 - factor\<bar> \<le> 1 / 10 ^ 11"
    by simp
  with t have "\<forall>a<9. \<forall>b<9.
      \<bar>dyad_dot (get_mandel_base_skw (factor + 1 / 2 ^ 53)) a b - kronecker a b\<bar> < 1 / 10 ^ 10"
    by blast
  then have "\<bar>dyad_dot (get_mandel_base_skw (factor + 1 / 2 ^ 53)) 7 7 - kronecker 7 7\<bar>
      < 1 / 10 ^ 10"
    by simp
  moreover from t have "dyad_dot BASE6 3 3 = kronecker 3 3" "dyad_dot BASE6 3 4 = kronecker 3 4"
    "dyad_dot BASE9 6 6 = kronecker 6 6" "dyad_dot BASE9 3 6 = kronecker 3 6"
    "dyad_dot BASE9 8 8 = kronecker 8 8"
    by simp_all
  ultimately show ?thesis
    by (simp add: kronecker_def)
qed

section \<open>Arrays given by their entries\<close>

lemma ravel2: "ravel [n, m] [a, b] = a * m + b"
  by (simp add: ravel_def)

lemma ravel4: "ravel [n1, n2, n3, n4] [i, j, k, l] = ((i * n2 + j) * n3 + k) * n4 + l"
  by (simp add: ravel_def)

lemma ndarray1_cong: "(\<And>a. a < n \<Longrightarrow> f a = g a) \<Longrightarrow> ndarray1 n f = ndarray1 n g"
  by (simp add: ndarray1_def)

lemma ndarray2_cong:
  "(\<And>a b. a < n \<Longrightarrow> b < m \<Longrightarrow> f a b = g a b) \<Longrightarrow> ndarray2 n m f = ndarray2 n m g"
  by (auto simp: ndarray2_def)

lemma ndarray4_cong:
  "(\<And>i j k l. i < n1 \<Longrightarrow> j < n2 \<Longrightarrow> k < n3 \<Longrightarrow> l < n4 \<Longrightarrow> f i j k l = g i j k l)
   \<Longrightarrow> ndarray4 n1 n2 n3 n4 f = ndarray4 n1 n2 n3 n4 g"
  by (auto simp: ndarray4_def)


lemma index2_less: "a < n \<Longrightarrow> b < m \<Longrightarrow> a * m + b < n * (m::nat)"
proof -
  assume "a < n" "b < m"
  then have "a * m + b < a * m + m" by simp
  also have "\<dots> = Suc a * m" by simp
  also have "\<dots> \<le> n * m" using \<open>a < n\<close> by (intro mult_le_mono1) simp
  finally show ?thesis .
qed

lemma item_ndarray2: "a < n \<Longrightarrow> b < m \<Longrightarrow> item (ndarray2 n m f) [a, b] = f a b"
  by (simp add: item_def ndarray2_def ravel2 index2_less product_nth)


lemma product4_nth:
  assumes "p < 81"
  shows "List.product [0..<3] (List.product [0..<3] (List.product [0..<3] [0..<3])) ! p
       = (p div 27, p mod 27 div 9, p mod 27 mod 9 div 3, p mod 27 mod 9 mod 3)"
proof -
  have a: "p mod 27 < 27" "p mod 27 mod 9 < 9" by simp_all
  have b: "p div 27 < 3" "p mod 27 div 9 < 3" "p mod 27 mod 9 div 3 < 3" "p mod 27 mod 9 mod 3 < 3"
    using assms by simp_all
  show ?thesis
    using assms a b by (simp add: product_nth)
qed

lemma unravel4_aux:
  fixes p :: nat
  shows "A * 27 + q = p \<Longrightarrow> B * 9 + r = q \<Longrightarrow> C * 3 + D = r
    \<Longrightarrow> ((A * 3 + B) * 3 + C) * 3 + D = p"
  by simp

lemma unravel4:
  fixes p :: nat
  shows "((p div 27 * 3 + p mod 27 div 9) * 3 + p mod 27 mod 9 div 3) * 3 + p mod 27 mod 9 mod 3 = p"
  by (rule unravel4_aux) (rule div_mult_mod_eq)+

lemma item_ndarray4:
  assumes "i < 3" "j < 3" "k < 3" "l < 3"
  shows "item (ndarray4 3 3 3 3 f) [i, j, k, l] = f i j k l"
proof -
  define r where "r = k * 3 + l"
  define q where "q = j * 9 + r"
  define p where "p = i * 27 + q"
  have r: "r < 9" "r div 3 = k" "r mod 3 = l"
    using assms by (simp_all add: r_def)
  have q: "q < 27" "q div 9 = j" "q mod 9 = r"
    using assms r by (simp_all add: q_def)
  have p: "p < 81" "p div 27 = i" "p mod 27 = q"
    using assms q by (simp_all add: p_def)
  have "ravel [3, 3, 3, 3] [i, j, k, l] = p"
    by (simp add: ravel4 p_def q_def r_def)
  then show ?thesis
    using p q r by (simp add: item_def ndarray4_def product4_nth)
qed

lemma ndarray4_item:
  assumes "shape T = [3, 3, 3, 3]" "length (data T) = 81"
  shows "ndarray4 3 3 3 3 (\<lambda>i j k l. item T [i, j, k, l]) = T"
proof -
  let ?xs = "map (\<lambda>(i, j, k, l). data T ! (((i * 3 + j) * 3 + k) * 3 + l))
              (List.product [0..<3] (List.product [0..<3] (List.product [0..<3] [0..<3])))"
  have "?xs = data T"
  proof (rule nth_equalityI)
    show "length ?xs = length (data T)"
      using assms by simp
  next
    fix p
    assume "p < length ?xs"
    then have p: "p < 81" by simp
    then show "?xs ! p = data T ! p"
      by (simp add: product4_nth unravel4)
  qed
  with assms show ?thesis
    by (simp add: ndarray4_def item_def ravel4)
qed

section \<open>Projection and expansion\<close>

lemma factor_factor: "factor * (factor * x) = x / 2"
  by (simp add: factor_def)


lemma proj6: "j < 3 \<Longrightarrow> k < 3 \<Longrightarrow> proj 6 (sym_entry factor) X j k = (X j k + X k j) / 2"
  unfolding nat_less_3
  by (elim disjE; simp add: proj_def sum_lessThan_3 sum_lessThan_6 sym_entry_def
      algebra_simps factor_factor)

lemma sandwich:
  fixes B :: "nat \<Rightarrow> nat \<Rightarrow> nat \<Rightarrow> real"
  shows "(\<Sum>a<K. \<Sum>b<K. B a j k *
            (\<Sum>i<3. \<Sum>i'<3. \<Sum>k'<3. \<Sum>l<3. B a i i' * T i i' k' l * B b k' l) * B b m n)
       = (\<Sum>b<K. proj K B (\<lambda>i i'. \<Sum>k'<3. \<Sum>l<3. T i i' k' l * B b k' l) j k * B b m n)"
proof -
  have "(\<Sum>a<K. \<Sum>b<K. B a j k *
            (\<Sum>i<3. \<Sum>i'<3. \<Sum>k'<3. \<Sum>l<3. B a i i' * T i i' k' l * B b k' l) * B b m n)
      = (\<Sum>b<K. \<Sum>a<K. B a j k *
            (\<Sum>i<3. \<Sum>i'<3. \<Sum>k'<3. \<Sum>l<3. B a i i' * T i i' k' l * B b k' l) * B b m n)"
    by (rule sum.swap)
  also have "\<dots> = (\<Sum>b<K. proj K B (\<lambda>i i'. \<Sum>k'<3. \<Sum>l<3. T i i' k' l * B b k' l) j k * B b m n)"
    by (simp add: proj_def sum_distrib_left sum_distrib_right mult_ac)
  finally show ?thesis .
qed


lemma sandwich6:
  assumes "j < 3" "k < 3" "m < 3" "n < 3"
  shows "(\<Sum>a<6. \<Sum>b<6. sym_entry factor a j k *
            (\<Sum>i<3. \<Sum>i'<3. \<Sum>k'<3. \<Sum>l<3. sym_entry factor a i i' * T i i' k' l * sym_entry factor b k' l)
              * sym_entry factor b m n)
       = (T j k m n + T k j m n + T j k n m + T k j n m) / 4"
proof -
  define S where "S k' l = (T j k k' l + T k j k' l) / 2" for k' l
  have half: "((\<Sum>k'<3. \<Sum>l<3. T j k k' l * sym_entry factor b k' l)
                 + (\<Sum>k'<3. \<Sum>l<3. T k j k' l * sym_entry factor b k' l)) / 2
            = (\<Sum>k'<3. \<Sum>l<3. sym_entry factor b k' l * S k' l)" for b
    by (simp add: S_def sum.distrib sum_divide_distrib add_divide_distrib distrib_left mult_ac)
  have "(\<Sum>a<6. \<Sum>b<6. sym_entry factor a j k *
            (\<Sum>i<3. \<Sum>i'<3. \<Sum>k'<3. \<Sum>l<3. sym_entry factor a i i' * T i i' k' l * sym_entry factor b k' l)
              * sym_entry factor b m n)
      = (\<Sum>b<6. ((\<Sum>k'<3. \<Sum>l<3. T j k k' l * sym_entry factor b k' l)
                 + (\<Sum>k'<3. \<Sum>l<3. T k j k' l * sym_entry factor b k' l)) / 2 * sym_entry factor b m n)"
    using assms by (simp add: sandwich proj6)
  also have "\<dots> = proj 6 (sym_entry factor) S m n"
    unfolding half by (simp add: proj_def mult_ac)
  also have "\<dots> = (S m n + S n m) / 2"
    using assms by (simp add: proj6)
  also have "\<dots> = (T j k m n + T k j m n + T j k n m + T k j n m) / 4"
    by (simp add: S_def field_simps)
  finally show ?thesis .
qed

section \<open>The conversions in closed form\<close>

lemma replicate_2: "replicate 2 x = [x, x]"
  by (simp add: numeral_2_eq_2)

lemma replicate_4: "replicate 4 x = [x, x, x, x]"
  by (simp add: eval_nat_numeral)

lemma types_eq:
  "types = [([3, 3], t_2), ([3, 3, 3, 3], t_4), ([6], m6_2), ([6, 6], m6_4),
            ([9], m9_2), ([9, 9], m9_4)]"
  by (simp add: types_def DIM_def DIM_MANDEL6_def DIM_MANDEL9_def Let_def replicate_2 replicate_4)

lemma base_entries_BASE6: "base_entries BASE6 6 (sym_entry factor)"
  by (simp add: base_entries_def BASE6_def shape_get_mandel_base_sym item_sym)

lemma base_entries_BASE9: "base_entries BASE9 9 (skw_entry factor)"
  by (simp add: base_entries_def BASE9_def shape_get_mandel_base_skw item_skw)

lemma tensor2_to_mandel_eq:
  assumes "base_entries base K E" "shape T = [3, 3]"
  shows "tensor2_to_mandel T base =
     Inr (ndarray1 K (\<lambda>a. \<Sum>i<3. \<Sum>j<3. E a i j * item T [i, j]))"
  using assms
  by (auto simp: tensor2_to_mandel_def base_entries_def Let_def intro!: ndarray1_cong sum.cong)

lemma tensor4_to_mandel_eq:
  assumes "base_entries base K E" "shape T = [3, 3, 3, 3]"
  shows "tensor4_to_mandel T base =
     Inr (ndarray2 K K (\<lambda>a b. \<Sum>i<3. \<Sum>j<3. \<Sum>k<3. \<Sum>l<3.
            E a i j * item T [i, j, k, l] * E b k l))"
  using assms
  by (auto simp: tensor4_to_mandel_def base_entries_def Let_def intro!: ndarray2_cong sum.cong)

lemma mandel_2_to_tensor_eq:
  assumes "base_entries base K E" "shape M = [K]"
  shows "mandel_2_to_tensor M base =
     Inr (ndarray2 3 3 (\<lambda>j k. \<Sum>a<K. E a j k * item M [a]))"
  using assms
  by (auto simp: mandel_2_to_tensor_def base_entries_def Let_def intro!: ndarray2_cong sum.cong)

lemma mandel_4_to_tensor_eq:
  assumes "base_entries base K E" "shape M = [K, K]"
  shows "mandel_4_to_tensor M base =
     Inr (ndarray4 3 3 3 3 (\<lambda>j k m n. \<Sum>a<K. \<Sum>b<K. E a j k * item M [a, b] * E b m n))"
  using assms
  by (auto simp: mandel_4_to_tensor_def base_entries_def Let_def intro!: ndarray4_cong sum.cong)


lemma get_type_by_shape_known:
  "shape x = [3, 3] \<Longrightarrow> get_type_by_shape x = Inr t_2"
  "shape x = [3, 3, 3, 3] \<Longrightarrow> get_type_by_shape x = Inr t_4"
  "shape x = [6] \<Longrightarrow> get_type_by_shape x = Inr m6_2"
  "shape x = [6, 6] \<Longrightarrow> get_type_by_shape x = Inr m6_4"
  "shape x = [9] \<Longrightarrow> get_type_by_shape x = Inr m9_2"
  "shape x = [9, 9] \<Longrightarrow> get_type_by_shape x = Inr m9_4"
  by (simp_all add: get_type_by_shape_def types_eq)

lemma get_type_by_shape_unknown:
  "shape x \<notin> {[3, 3], [3, 3, 3, 3], [6], [6, 6], [9], [9, 9]}
   \<Longrightarrow> get_type_by_shape x = Inl (KeyError (ShapeKey (shape x)))"
  by (simp add: get_type_by_shape_def types_eq)

lemma shape_ndarray1: "shape (ndarray1 n f) = [n]"
  by (simp add: ndarray1_def)

lemma shape_ndarray2: "shape (ndarray2 n m f) = [n, m]"
  by (simp add: ndarray2_def)

lemma shape_ndarray4: "shape (ndarray4 n1 n2 n3 n4 f) = [n1, n2, n3, n4]"
  by (simp add: ndarray4_def)



lemma roundtrip4:
  assumes "base_entries base K E" "shape T = [3, 3, 3, 3]"
  shows "and_then (tensor4_to_mandel T base) (\<lambda>M. mandel_4_to_tensor M base)
       = Inr (ndarray4 3 3 3 3 (\<lambda>j k m n. \<Sum>a<K. \<Sum>b<K. E a j k *
            (\<Sum>i<3. \<Sum>i'<3. \<Sum>k'<3. \<Sum>l<3. E a i i' * item T [i, i', k', l] * E b k' l)
              * E b m n))"
proof -
  let ?M = "ndarray2 K K (\<lambda>a b. \<Sum>i<3. \<Sum>j<3. \<Sum>k<3. \<Sum>l<3.
            E a i j * item T [i, j, k, l] * E b k l)"
  have "mandel_4_to_tensor ?M base
      = Inr (ndarray4 3 3 3 3 (\<lambda>j k m n. \<Sum>a<K. \<Sum>b<K. E a j k *
            (\<Sum>i<3. \<Sum>i'<3. \<Sum>k'<3. \<Sum>l<3. E a i i' * item T [i, i', k', l] * E b k' l)
              * E b m n))"
    by (subst mandel_4_to_tensor_eq[OF assms(1)])
       (auto simp: shape_ndarray2 item_ndarray2 intro!: ndarray4_cong sum.cong)
  then show ?thesis
    by (simp add: and_then_def tensor4_to_mandel_eq[OF assms])
qed


lemma is_tensor4D: "is_tensor4 T \<Longrightarrow> shape T = [3, 3, 3, 3] \<and> length (data T) = 81"
  by (simp add: is_tensor4_def wellformed_def)

lemma to_mandel9_tensor2: "shape T = [3, 3] \<Longrightarrow> to_mandel9 T = tensor2_to_mandel T BASE9"
  by (simp add: to_mandel9_def get_to_mandel9_func_def get_type_by_shape_known tensor2_to_mandel9_def)

lemma to_mandel9_tensor4: "shape T = [3, 3, 3, 3] \<Longrightarrow> to_mandel9 T = tensor4_to_mandel T BASE9"
  by (simp add: to_mandel9_def get_to_mandel9_func_def get_type_by_shape_known tensor4_to_mandel9_def)

lemma to_mandel6_tensor2: "shape T = [3, 3] \<Longrightarrow> to_mandel6 T = tensor2_to_mandel T BASE6"
  by (simp add: to_mandel6_def get_to_mandel6_func_def get_type_by_shape_known tensor2_to_mandel6_def)

lemma to_mandel6_tensor4: "shape T = [3, 3, 3, 3] \<Longrightarrow> to_mandel6 T = tensor4_to_mandel T BASE6"
  by (simp add: to_mandel6_def get_to_mandel6_func_def get_type_by_shape_known tensor4_to_mandel6_def)

lemma to_tensor_mandel:
  "shape M = [6] \<Longrightarrow> to_tensor M = mandel_2_to_tensor M BASE6"
  "shape M = [6, 6] \<Longrightarrow> to_tensor M = mandel_4_to_tensor M BASE6"
  "shape M = [9] \<Longrightarrow> to_tensor M = mandel_2_to_tensor M BASE9"
  "shape M = [9, 9] \<Longrightarrow> to_tensor M = mandel_4_to_tensor M BASE9"
  by (simp_all add: to_tensor_def get_to_tensor_func_def get_type_by_shape_known
      mandel6_2_to_tensor_def mandel6_4_to_tensor_def mandel9_2_to_tensor_def
      mandel9_4_to_tensor_def)

lemma and_then_to_tensor:
  assumes "base_entries base K E" "K = 6 \<and> base = BASE6 \<or> K = 9 \<and> base = BASE9"
  shows "shape T = [3, 3] \<Longrightarrow>
           and_then (tensor2_to_mandel T base) to_tensor
           = and_then (tensor2_to_mandel T base) (\<lambda>M. mandel_2_to_tensor M base)"
    and "shape T = [3, 3, 3, 3] \<Longrightarrow>
           and_then (tensor4_to_mandel T base) to_tensor
           = and_then (tensor4_to_mandel T base) (\<lambda>M. mandel_4_to_tensor M base)"
  using assms(2)
  by (auto simp: tensor2_to_mandel_eq[OF assms(1)] tensor4_to_mandel_eq[OF assms(1)]
      and_then_def to_tensor_mandel shape_ndarray1 shape_ndarray2)



lemma mandel6_roundtrip_tensor4:
  assumes "is_tensor4 T"
  shows "and_then (to_mandel6 T) to_tensor = Inr (symmetrize_minor T)"
  using is_tensor4D[OF assms]
  by (simp add: to_mandel6_tensor4 and_then_to_tensor[OF base_entries_BASE6]
      roundtrip4[OF base_entries_BASE6] sandwich6 symmetrize_minor_def cong: ndarray4_cong)

section \<open>Round trips\<close>

lemma is_tensor4_ndarray4: "is_tensor4 (ndarray4 3 3 3 3 f)"
  by (simp add: is_tensor4_def wellformed_def ndarray4_def)

lemma minor_symmetric_symmetrize: "minor_symmetric (symmetrize_minor T)"
  by (simp add: minor_symmetric_def symmetrize_minor_def item_ndarray4)

lemma symmetrize_minor_id:
  assumes "is_tensor4 T" "minor_symmetric T"
  shows "symmetrize_minor T = T"
proof -
  have "symmetrize_minor T = ndarray4 3 3 3 3 (\<lambda>i j k l. item T [i, j, k, l])"
    unfolding symmetrize_minor_def
  proof (rule ndarray4_cong)
    fix i j k l :: nat
    assume b: "i < 3" "j < 3" "k < 3" "l < 3"
    with assms(2) have "item T [j, i, k, l] = item T [i, j, k, l]"
      "item T [i, j, l, k] = item T [i, j, k, l]"
      "item T [j, i, l, k] = item T [j, i, k, l]"
      by (simp_all add: minor_symmetric_def)
    then show "(item T [i, j, k, l] + item T [j, i, k, l] + item T [i, j, l, k]
                + item T [j, i, l, k]) / 4 = item T [i, j, k, l]"
      by simp
  qed
  with is_tensor4D[OF assms(1)] show ?thesis
    by (simp add: ndarray4_item)
qed

lemma symmetrize_minor_fixed_iff:
  assumes "is_tensor4 T"
  shows "symmetrize_minor T = T \<longleftrightarrow> minor_symmetric T"
  using symmetrize_minor_id[OF assms] minor_symmetric_symmetrize[of T] by auto

lemma is_tensor2_arange9: "is_tensor2 arange9"
  by (simp add: is_tensor2_def wellformed_def arange9_def)

lemma is_tensor4_unit_0100: "is_tensor4 unit_0100"
  by (simp add: is_tensor4_def wellformed_def unit_0100_def setitem_def zeros_def)

lemma unit_0100_entries:
  "item unit_0100 [0, 1, 0, 0] = 1" "item unit_0100 [1, 0, 0, 0] = 0"
  by (simp_all add: unit_0100_def setitem_def zeros_def item_def ravel4)

lemma unit_0100_not_minor_symmetric: "\<not> minor_symmetric unit_0100"
proof
  assume "minor_symmetric unit_0100"
  then have "item unit_0100 [0, 1, 0, 0] = item unit_0100 [1, 0, 0, 0]"
    by (simp add: minor_symmetric_def)
  then show False
    using unit_0100_entries by simp
qed




text \<open>
  C4. For a fourth-order tensor \<open>T\<close>, \<^verbatim>\<open>to_tensor(to_mandel6(T))\<close> raises no error and
  returns the symmetrisation of \<open>T\<close> over its minor index pairs. It equals \<open>T\<close> exactly
  when \<open>T\<close> is minor-symmetric; in particular a symmetrised tensor is returned unchanged
  and a tensor that is not minor-symmetric never is.
\<close>

theorem mandel6_roundtrip_iff:
  "is_tensor4 T \<Longrightarrow>
     and_then (to_mandel6 T) to_tensor = Inr (symmetrize_minor T)
     \<and> (and_then (to_mandel6 T) to_tensor = Inr T \<longleftrightarrow> minor_symmetric T)
     \<and> is_tensor4 (symmetrize_minor T)
     \<and> and_then (to_mandel6 (symmetrize_minor T)) to_tensor = Inr (symmetrize_minor T)"
proof -
  assume T: "is_tensor4 T"
  have S: "is_tensor4 (symmetrize_minor T)"
    by (simp add: symmetrize_minor_def is_tensor4_ndarray4)
  show ?thesis
    using T S
    by (simp add: mandel6_roundtrip_tensor4 symmetrize_minor_fixed_iff
        symmetrize_minor_id minor_symmetric_symmetrize)
qed







theorem mandel6_roundtrip_iff_witness:
  "is_tensor4 unit_0100 \<and> \<not> minor_symmetric unit_0100
   \<and> and_then (to_mandel6 unit_0100) to_tensor = Inr (symmetrize_minor unit_0100)
   \<and> and_then (to_mandel6 unit_0100) to_tensor \<noteq> Inr unit_0100
   \<and> item (symmetrize_minor unit_0100) [1, 0, 0, 0] = 1 / 2
   \<and> and_then (to_mandel6 (symmetrize_minor unit_0100)) to_tensor
       = Inr (symmetrize_minor unit_0100)"
proof -
  have e: "item (symmetrize_minor unit_0100) [1, 0, 0, 0] = 1 / 2"
    using unit_0100_entries by (simp add: symmetrize_minor_def item_ndarray4)
  show ?thesis
    using mandel6_roundtrip_iff[OF is_tensor4_unit_0100] e unit_0100_not_minor_symmetric
      is_tensor4_unit_0100
    by auto
qed

lemma skw_entry_sym: "a < 6 \<Longrightarrow> skw_entry f a i j = sym_entry f a i j"
  by (simp add: skw_entry_def)

lemma first6_ndarray1: "first6 (ndarray1 9 F) = ndarray1 6 F"
  by (simp add: first6_def ndarray1_def take_map)

lemma top_left_ndarray2: "top_left_6x6 (ndarray2 9 9 G) = ndarray2 6 6 G"
  unfolding top_left_6x6_def by (rule ndarray2_cong) (simp add: item_ndarray2)

lemma to_mandel6_mandel9:
  "shape M = [9] \<Longrightarrow> to_mandel6 M = mandel9_2_to_mandel6 M"
  "shape M = [9, 9] \<Longrightarrow> to_mandel6 M = mandel9_4_to_mandel6 M"
  by (simp_all add: to_mandel6_def get_to_mandel6_func_def get_type_by_shape_known)

lemma take_as_map_nth: "k \<le> length xs \<Longrightarrow> take k xs = map ((!) xs) [0..<k]"
proof -
  assume "k \<le> length xs"
  then have "map ((!) xs) [0..<k] = take k (map ((!) xs) [0..<length xs])"
    by (simp add: take_map)
  then show ?thesis
    by (simp add: map_nth)
qed

lemma first_six_positions: "filter (selected (Slice 0 6) [9]) [0..<9] = [0..<6]"
  by code_simp

lemma top_left_positions:
  "filter (selected (Slice2 0 6 0 6) [9, 9]) [0..<81]
   = map (\<lambda>(r, c). r * 9 + c) (List.product [0..<6] [0..<6])"
  by code_simp

lemma mandel9_2_to_mandel6_first6:
  "shape M = [9] \<Longrightarrow> length (data M) = 9 \<Longrightarrow> mandel9_2_to_mandel6 M = Inr (first6 M)"
  by (simp add: mandel9_2_to_mandel6_def getitem_def SLICE6_def ndim_def first6_def
      first_six_positions take_as_map_nth)

lemma mandel9_4_to_mandel6_top_left:
  "shape M = [9, 9] \<Longrightarrow> length (data M) = 81
   \<Longrightarrow> mandel9_4_to_mandel6 M = Inr (top_left_6x6 M)"
  by (simp add: mandel9_4_to_mandel6_def getitem_def SLICE6_def ndim_def top_left_6x6_def
      ndarray2_def item_def ravel2 top_left_positions case_prod_unfold comp_def)

text \<open>
  C10. For a second-order tensor \<open>T\<close>, \<^verbatim>\<open>to_mandel6(T)\<close> is the first six components of
  \<^verbatim>\<open>to_mandel9(T)\<close>; for a fourth-order tensor it is the top-left \<open>6\<times>6\<close> block. Both are
  what \<^verbatim>\<open>to_mandel6\<close> returns when applied to \<^verbatim>\<open>to_mandel9(T)\<close>.
\<close>

theorem mandel6_is_truncated_mandel9:
  "(is_tensor2 T \<longrightarrow>
      (\<exists>m9. to_mandel9 T = Inr m9 \<and> shape m9 = [9] \<and> to_mandel6 T = Inr (first6 m9)
            \<and> to_mandel6 m9 = Inr (first6 m9)))
   \<and> (is_tensor4 T \<longrightarrow>
      (\<exists>m9. to_mandel9 T = Inr m9 \<and> shape m9 = [9, 9] \<and> to_mandel6 T = Inr (top_left_6x6 m9)
            \<and> to_mandel6 m9 = Inr (top_left_6x6 m9)))"
proof (intro conjI impI)
  assume "is_tensor2 T"
  then have s: "shape T = [3, 3]"
    by (simp add: is_tensor2_def)
  let ?F9 = "\<lambda>a. \<Sum>i<3. \<Sum>j<3. skw_entry factor a i j * item T [i, j]"
  have 9: "to_mandel9 T = Inr (ndarray1 9 ?F9)"
    by (simp add: to_mandel9_tensor2 s tensor2_to_mandel_eq[OF base_entries_BASE9])
  have "ndarray1 6 (\<lambda>a. \<Sum>i<3. \<Sum>j<3. sym_entry factor a i j * item T [i, j]) = ndarray1 6 ?F9"
    by (rule ndarray1_cong) (simp add: skw_entry_sym)
  then have 6: "to_mandel6 T = Inr (first6 (ndarray1 9 ?F9))"
    by (simp add: to_mandel6_tensor2 s tensor2_to_mandel_eq[OF base_entries_BASE6]
        first6_ndarray1)
  show "\<exists>m9. to_mandel9 T = Inr m9 \<and> shape m9 = [9] \<and> to_mandel6 T = Inr (first6 m9)
            \<and> to_mandel6 m9 = Inr (first6 m9)"
    using 9 6
    by (simp add: shape_ndarray1 to_mandel6_mandel9 mandel9_2_to_mandel6_first6 ndarray1_def)
next
  assume "is_tensor4 T"
  then have s: "shape T = [3, 3, 3, 3]"
    by (simp add: is_tensor4_def)
  let ?G9 = "\<lambda>a b. \<Sum>i<3. \<Sum>j<3. \<Sum>k<3. \<Sum>l<3.
      skw_entry factor a i j * item T [i, j, k, l] * skw_entry factor b k l"
  have 9: "to_mandel9 T = Inr (ndarray2 9 9 ?G9)"
    by (simp add: to_mandel9_tensor4 s tensor4_to_mandel_eq[OF base_entries_BASE9])
  have "ndarray2 6 6 (\<lambda>a b. \<Sum>i<3. \<Sum>j<3. \<Sum>k<3. \<Sum>l<3.
      sym_entry factor a i j * item T [i, j, k, l] * sym_entry factor b k l) = ndarray2 6 6 ?G9"
    by (rule ndarray2_cong) (simp add: skw_entry_sym)
  then have 6: "to_mandel6 T = Inr (top_left_6x6 (ndarray2 9 9 ?G9))"
    by (simp add: to_mandel6_tensor4 s tensor4_to_mandel_eq[OF base_entries_BASE6]
        top_left_ndarray2)
  show "\<exists>m9. to_mandel9 T = Inr m9 \<and> shape m9 = [9, 9] \<and> to_mandel6 T = Inr (top_left_6x6 m9)
            \<and> to_mandel6 m9 = Inr (top_left_6x6 m9)"
    using 9 6
    by (simp add: shape_ndarray2 to_mandel6_mandel9 mandel9_4_to_mandel6_top_left
        ndarray2_def)
qed

theorem mandel6_is_truncated_mandel9_witness:
  "is_tensor2 arange9
   \<and> to_mandel6 arange9 = Inr \<lparr>shape = [6], data = [0, 4, 8, 6 * sqrt 2, 4 * sqrt 2, 2 * sqrt 2]\<rparr>
   \<and> (\<exists>m9. to_mandel9 arange9 = Inr m9 \<and> to_mandel6 arange9 = Inr (first6 m9))
   \<and> is_tensor4 unit_0100
   \<and> (\<exists>m9. to_mandel9 unit_0100 = Inr m9 \<and> to_mandel6 unit_0100 = Inr (top_left_6x6 m9))"
proof -
  have "to_mandel6 arange9
      = Inr \<lparr>shape = [6], data = [0, 4, 8, 6 * sqrt 2, 4 * sqrt 2, 2 * sqrt 2]\<rparr>"
    by (simp add: to_mandel6_tensor2 tensor2_to_mandel_eq[OF base_entries_BASE6] arange9_def
        ndarray1_def upt_rec sum_lessThan_3 sym_entry_def item_def ravel2 factor_def)
  then show ?thesis
    using mandel6_is_truncated_mandel9[of arange9] mandel6_is_truncated_mandel9[of unit_0100]
      is_tensor2_arange9 is_tensor4_unit_0100
    by auto
qed

section \<open>Classification errors\<close>

lemma to_mandel9_mandel6:
  "shape M = [6] \<Longrightarrow> to_mandel9 M = mandel6_2_to_mandel9 M"
  "shape M = [6, 6] \<Longrightarrow> to_mandel9 M = mandel6_4_to_mandel9 M"
  by (simp_all add: to_mandel9_def get_to_mandel9_func_def get_type_by_shape_known)

lemma pass_through_cases:
  "shape x = [6] \<or> shape x = [6, 6] \<Longrightarrow> to_mandel6 x = Inr x"
  "shape x = [9] \<or> shape x = [9, 9] \<Longrightarrow> to_mandel9 x = Inr x"
  "shape x = [3, 3] \<or> shape x = [3, 3, 3, 3] \<Longrightarrow> to_tensor x = Inr x"
  by (auto simp: to_mandel6_def get_to_mandel6_func_def to_mandel9_def get_to_mandel9_func_def
      to_tensor_def get_to_tensor_func_def get_type_by_shape_known pass_through_def)

lemma recognized_no_error:
  assumes "shape x \<in> recognized_shapes"
  shows "(\<exists>y. to_mandel6 x = Inr y) \<and> (\<exists>y. to_mandel9 x = Inr y) \<and> (\<exists>y. to_tensor x = Inr y)"
proof -
  from assms consider "shape x = [3, 3]" | "shape x = [3, 3, 3, 3]" | "shape x = [6]"
    | "shape x = [6, 6]" | "shape x = [9]" | "shape x = [9, 9]"
    by (auto simp: recognized_shapes_def)
  then show ?thesis
  proof cases
    case 1
    then show ?thesis
      by (simp add: pass_through_cases to_mandel6_tensor2 to_mandel9_tensor2
          tensor2_to_mandel_eq[OF base_entries_BASE6] tensor2_to_mandel_eq[OF base_entries_BASE9])
  next
    case 2
    then show ?thesis
      by (simp add: pass_through_cases to_mandel6_tensor4 to_mandel9_tensor4
          tensor4_to_mandel_eq[OF base_entries_BASE6] tensor4_to_mandel_eq[OF base_entries_BASE9])
  next
    case 3
    then show ?thesis
      by (simp add: pass_through_cases to_mandel9_mandel6 mandel6_2_to_mandel9_def
          to_tensor_mandel mandel_2_to_tensor_eq[OF base_entries_BASE6])
  next
    case 4
    then show ?thesis
      by (simp add: pass_through_cases to_mandel9_mandel6 mandel6_4_to_mandel9_def
          to_tensor_mandel mandel_4_to_tensor_eq[OF base_entries_BASE6])
  next
    case 5
    then show ?thesis
      by (simp add: pass_through_cases to_mandel6_mandel9 mandel9_2_to_mandel6_def
          getitem_def ndim_def
          to_tensor_mandel mandel_2_to_tensor_eq[OF base_entries_BASE9])
  next
    case 6
    then show ?thesis
      by (simp add: pass_through_cases to_mandel6_mandel9 mandel9_4_to_mandel6_def
          getitem_def ndim_def
          to_tensor_mandel mandel_4_to_tensor_eq[OF base_entries_BASE9])
  qed
qed

text \<open>
  C8. When the shape of the input is none of the six recognised shapes, each of
  \<^verbatim>\<open>to_mandel6\<close>, \<^verbatim>\<open>to_mandel9\<close> and \<^verbatim>\<open>to_tensor\<close> raises \<^verbatim>\<open>KeyError\<close> carrying that shape;
  when it is one of the six, each of them returns an array and raises nothing.
\<close>

theorem classification_by_shape:
  "(shape x \<notin> recognized_shapes \<longrightarrow>
      get_type_by_shape x = Inl (KeyError (ShapeKey (shape x)))
      \<and> to_mandel6 x = Inl (KeyError (ShapeKey (shape x)))
      \<and> to_mandel9 x = Inl (KeyError (ShapeKey (shape x)))
      \<and> to_tensor x = Inl (KeyError (ShapeKey (shape x))))
   \<and> (shape x \<in> recognized_shapes \<longrightarrow>
      (\<exists>ty. get_type_by_shape x = Inr ty)
      \<and> (\<exists>y. to_mandel6 x = Inr y) \<and> (\<exists>y. to_mandel9 x = Inr y) \<and> (\<exists>y. to_tensor x = Inr y))"
proof (intro conjI impI)
  assume "shape x \<notin> recognized_shapes"
  then have u: "get_type_by_shape x = Inl (KeyError (ShapeKey (shape x)))"
    by (simp add: recognized_shapes_def get_type_by_shape_unknown)
  then show "get_type_by_shape x = Inl (KeyError (ShapeKey (shape x)))"
    "to_mandel6 x = Inl (KeyError (ShapeKey (shape x)))"
    "to_mandel9 x = Inl (KeyError (ShapeKey (shape x)))"
    "to_tensor x = Inl (KeyError (ShapeKey (shape x)))"
    by (simp_all add: to_mandel6_def get_to_mandel6_func_def to_mandel9_def
        get_to_mandel9_func_def to_tensor_def get_to_tensor_func_def)
next
  assume r: "shape x \<in> recognized_shapes"
  then show "\<exists>ty. get_type_by_shape x = Inr ty"
    by (auto simp: recognized_shapes_def get_type_by_shape_known)
  from recognized_no_error[OF r]
  show "\<exists>y. to_mandel6 x = Inr y" "\<exists>y. to_mandel9 x = Inr y" "\<exists>y. to_tensor x = Inr y"
    by simp_all
qed

theorem classification_by_shape_witness:
  "to_mandel6 \<lparr>shape = [5], data = [1, 2, 3, 4, 5]\<rparr> = Inl (KeyError (ShapeKey [5]))
   \<and> to_tensor (zeros [4, 4]) = Inl (KeyError (ShapeKey [4, 4]))
   \<and> to_mandel9 (zeros [4, 4]) = Inl (KeyError (ShapeKey [4, 4]))
   \<and> (\<exists>y. to_tensor vec123456 = Inr y)
   \<and> to_mandel6 vec123456 = Inr vec123456"
proof -
  have a: "[5] \<notin> recognized_shapes" "[4, 4] \<notin> recognized_shapes" "[6] \<in> recognized_shapes"
    by (simp_all add: recognized_shapes_def)
  have s: "shape (zeros [4, 4]) = [4, 4]" "shape vec123456 = [6]"
    by (simp_all add: zeros_def vec123456_def)
  show ?thesis
    using classification_by_shape[of "\<lparr>shape = [5], data = [1, 2, 3, 4, 5]\<rparr>"]
      classification_by_shape[of "zeros [4, 4]"] classification_by_shape[of vec123456] a s
    by (simp add: pass_through_cases)
qed

section \<open>Voigt scaling\<close>

lemma ndarray_eqI: "shape a = shape b \<Longrightarrow> data a = data b \<Longrightarrow> a = (b::ndarray)"
  by simp

lemma ravel1: "ravel [n] [a] = a"
  by (simp add: ravel_def)


lemma data_ndarray2_nth:
  assumes "p < n * m"
  shows "data (ndarray2 n m F) ! p = F (p div m) (p mod m)"
proof -
  from assms have "0 < m" by (cases m) auto
  with assms have "p div m < n" by (simp add: less_mult_imp_div_less)
  with assms \<open>0 < m\<close> show ?thesis
    by (simp add: ndarray2_def product_nth)
qed

lemma ndarray2_eqI:
  assumes "shape x = [n, m]" "length (data x) = n * m"
    and "\<And>p. p < n * m \<Longrightarrow> data x ! p = F (p div m) (p mod m)"
  shows "x = ndarray2 n m F"
proof (rule ndarray_eqI)
  show "shape x = shape (ndarray2 n m F)"
    using assms(1) by (simp add: ndarray2_def)
  show "data x = data (ndarray2 n m F)"
  proof (rule nth_equalityI)
    show "length (data x) = length (data (ndarray2 n m F))"
      using assms(2) by (simp add: ndarray2_def)
  next
    fix p assume "p < length (data x)"
    then show "data x ! p = data (ndarray2 n m F) ! p"
      using assms(2,3) by (simp add: data_ndarray2_nth)
  qed
qed



lemma scale_loop_rows:
  assumes "shape x = [6, 6]" "length (data x) = 36"
  shows "scale_loop x op [(shear, f)] x
       = Inr (ndarray2 6 6 (\<lambda>r c. if 3 \<le> r then op (item x [r, c]) f else item x [r, c]))"
proof -
  have idx: "p div 6 * 6 + p mod 6 = p" for p :: nat
    by simp
  show ?thesis
    using assms
    by (auto simp: scale_region_def ndim_def shear_def
        item_def ravel2 idx Let_def less_mult_imp_div_less intro!: ndarray2_eqI)
qed


lemma matrixD: "is_mandel6_matrix x \<Longrightarrow> shape x = [6, 6] \<and> length (data x) = 36"
  by (simp add: is_mandel6_matrix_def wellformed_def)

lemma factors_lookup:
  "map_of factors_mandel_to_voigt ''stress'' = Some [(shear, 1 / sqrt 2)]"
  "map_of factors_mandel_to_voigt ''strain'' = Some [(shear, sqrt 2)]"
  "map_of factors_mandel_to_voigt ''stiffness''
     = Some [(quadrant2, 1 / sqrt 2), (quadrant3, 1 / sqrt 2), (quadrant4, 1 / 2)]"
  "map_of factors_mandel_to_voigt ''compliance''
     = Some [(quadrant2, sqrt 2), (quadrant3, sqrt 2), (quadrant4, 2)]"
  by (simp_all add: factors_mandel_to_voigt_def)

lemma factors_lookup_None:
  "map_of factors_mandel_to_voigt q = None \<longleftrightarrow> q \<notin> quantities"
  by (auto simp: factors_mandel_to_voigt_def quantities_def)





lemma is_mandel6_matrix_ones: "is_mandel6_matrix ones66"
  by (simp add: is_mandel6_matrix_def wellformed_def ones66_def)










lemma scale_loop_shape:
  "\<forall>(pos, f) \<in> set fs. naxes pos \<le> ndim inp
   \<Longrightarrow> \<exists>y. scale_loop inp op fs out = Inr y \<and> shape y = shape out"
proof (induction fs arbitrary: out)
  case Nil
  then show ?case by simp
next
  case (Cons pf fs)
  obtain pos f where pf: "pf = (pos, f)" by (cases pf)
  with Cons.prems have "naxes pos \<le> ndim inp" by simp
  then have "scale_region inp pos (\<lambda>x. op x f) out
      = Inr (out\<lparr>data := map (\<lambda>p. if selected pos (shape inp) p
                                       then op (data inp ! p) f else data out ! p)
                             [0..<length (data out)]\<rparr>)"
    by (simp add: scale_region_def)
  moreover from Cons.prems have "\<forall>(pos, f) \<in> set fs. naxes pos \<le> ndim inp" by simp
  ultimately show ?case
    using Cons.IH[of "out\<lparr>data := map (\<lambda>p. if selected pos (shape inp) p
                                       then op (data inp ! p) f else data out ! p)
                             [0..<length (data out)]\<rparr>"] pf
    by simp
qed

lemma scale_loop_too_few_axes:
  "ndim inp < naxes pos \<Longrightarrow> scale_loop inp op ((pos, f) # rest) out = Inl IndexError"
  by (simp add: scale_region_def)

lemma factors_axes:
  assumes "map_of factors_mandel_to_voigt q = Some fs"
  shows "fs \<noteq> [] \<and> (\<forall>(pos, f) \<in> set fs. naxes pos = axes_needed q)"
  using assms
  by (auto simp: factors_mandel_to_voigt_def axes_needed_def shear_def quadrant2_def
      quadrant3_def quadrant4_def split: if_splits)

lemma voigt_known_key:
  assumes "q \<in> quantities"
  shows "(ndim x < axes_needed q \<longrightarrow>
            mandel6_to_voigt x q = Inl IndexError \<and> voigt_to_mandel6 x q = Inl IndexError)
       \<and> (axes_needed q \<le> ndim x \<longrightarrow>
            (\<exists>y. mandel6_to_voigt x q = Inr y \<and> shape y = shape x)
            \<and> (\<exists>y. voigt_to_mandel6 x q = Inr y \<and> shape y = shape x))"
proof -
  from assms obtain fs where fs: "map_of factors_mandel_to_voigt q = Some fs"
    using factors_lookup_None[of q] by auto
  note ax = factors_axes[OF fs]
  show ?thesis
  proof (intro conjI impI)
    assume few: "ndim x < axes_needed q"
    from ax obtain pos f rest where c: "fs = (pos, f) # rest"
      by (cases fs) auto
    with ax have "naxes pos = axes_needed q" by simp
    with few c fs show "mandel6_to_voigt x q = Inl IndexError"
      "voigt_to_mandel6 x q = Inl IndexError"
      by (simp_all add: mandel6_to_voigt_def voigt_to_mandel6_def scale_loop_too_few_axes
          del: scale_loop.simps)
  next
    assume "axes_needed q \<le> ndim x"
    with ax have "\<forall>(pos, f) \<in> set fs. naxes pos \<le> ndim x" by auto
    from scale_loop_shape[OF this] fs
    show "\<exists>y. mandel6_to_voigt x q = Inr y \<and> shape y = shape x"
      "\<exists>y. voigt_to_mandel6 x q = Inr y \<and> shape y = shape x"
      by (simp_all add: mandel6_to_voigt_def voigt_to_mandel6_def)
  qed
qed

text \<open>
  C9, as amended. Both Voigt conversions raise \<^verbatim>\<open>KeyError\<close> naming the key exactly when the
  key is none of the four quantities. With a valid key they raise \<^verbatim>\<open>IndexError\<close> when the array
  has fewer axes than the segments of the quantity index (one for stress and strain, two for
  stiffness and compliance), and otherwise return an array of the input's shape: the shape is
  not validated beyond that, and a \<open>(6, 6)\<close> matrix passed with \<^verbatim>\<open>'stress'\<close> comes back with
  its rows 3-5 scaled by \<open>1/\<surd>2\<close>.
\<close>

theorem voigt_errors:
  "(q \<notin> quantities \<longrightarrow>
      mandel6_to_voigt x q = Inl (KeyError (StrKey q))
      \<and> voigt_to_mandel6 x q = Inl (KeyError (StrKey q)))
   \<and> (q \<in> quantities \<and> ndim x < axes_needed q \<longrightarrow>
      mandel6_to_voigt x q = Inl IndexError \<and> voigt_to_mandel6 x q = Inl IndexError)
   \<and> (q \<in> quantities \<and> axes_needed q \<le> ndim x \<longrightarrow>
      (\<exists>y. mandel6_to_voigt x q = Inr y \<and> shape y = shape x)
      \<and> (\<exists>y. voigt_to_mandel6 x q = Inr y \<and> shape y = shape x))
   \<and> (is_mandel6_matrix x \<longrightarrow>
      mandel6_to_voigt x ''stress'' = Inr (scale_rows (1 / sqrt 2) x))"
proof (intro conjI impI)
  assume "q \<notin> quantities"
  then have "map_of factors_mandel_to_voigt q = None"
    by (simp add: factors_lookup_None)
  then show "mandel6_to_voigt x q = Inl (KeyError (StrKey q))"
    "voigt_to_mandel6 x q = Inl (KeyError (StrKey q))"
    by (simp_all add: mandel6_to_voigt_def voigt_to_mandel6_def)
next
  assume "q \<in> quantities \<and> ndim x < axes_needed q"
  then show "mandel6_to_voigt x q = Inl IndexError" "voigt_to_mandel6 x q = Inl IndexError"
    using voigt_known_key[of q x] by simp_all
next
  assume "q \<in> quantities \<and> axes_needed q \<le> ndim x"
  then show "\<exists>y. mandel6_to_voigt x q = Inr y \<and> shape y = shape x"
    "\<exists>y. voigt_to_mandel6 x q = Inr y \<and> shape y = shape x"
    using voigt_known_key[of q x] by simp_all
next
  assume "is_mandel6_matrix x"
  from matrixD[OF this] show "mandel6_to_voigt x ''stress'' = Inr (scale_rows (1 / sqrt 2) x)"
    by (simp add: mandel6_to_voigt_def factors_lookup scale_loop_rows scale_rows_def
        del: scale_loop.simps)
qed

text \<open>
  C9, as stated, fails: with the valid key \<^verbatim>\<open>'stiffness'\<close> a vector of shape \<open>(6,)\<close> raises
  \<^verbatim>\<open>IndexError\<close>, since \<^verbatim>\<open>inp[0:3, 3:6]\<close> indexes two axes.
\<close>

theorem voigt_index_error_counterexample:
  "''stiffness'' \<in> quantities
   \<and> mandel6_to_voigt \<lparr>shape = [6], data = [1, 2, 3, 4, 5, 6]\<rparr> ''stiffness'' = Inl IndexError
   \<and> voigt_to_mandel6 \<lparr>shape = [6], data = [1, 2, 3, 4, 5, 6]\<rparr> ''stiffness'' = Inl IndexError"
  by (simp add: quantities_def mandel6_to_voigt_def voigt_to_mandel6_def factors_lookup
      scale_region_def ndim_def quadrant2_def)

theorem voigt_errors_witness:
  "mandel6_to_voigt ones66 ''stres'' = Inl (KeyError (StrKey ''stres''))
   \<and> voigt_to_mandel6 \<lparr>shape = [], data = [1]\<rparr> ''strain'' = Inl IndexError
   \<and> (\<exists>y. mandel6_to_voigt ones66 ''compliance'' = Inr y \<and> shape y = [6, 6])
   \<and> is_mandel6_matrix ones66
   \<and> mandel6_to_voigt ones66 ''stress'' = Inr (scale_rows (1 / sqrt 2) ones66)
   \<and> item (scale_rows (1 / sqrt 2) ones66) [3, 0] = 1 / sqrt 2
   \<and> item (scale_rows (1 / sqrt 2) ones66) [2, 5] = 1"
proof -
  have e: "item (scale_rows (1 / sqrt 2) ones66) [3, 0] = 1 / sqrt 2"
    "item (scale_rows (1 / sqrt 2) ones66) [2, 5] = 1"
    by (simp_all add: scale_rows_def item_ndarray2, simp_all add: item_def ravel2 ones66_def)
  have s: "shape ones66 = [6, 6]" "ndim ones66 = 2" "ndim \<lparr>shape = [], data = [1]\<rparr> = 0"
    by (simp_all add: ones66_def ndim_def)
  show ?thesis
    using voigt_errors[of "''stres''" ones66] voigt_errors[of "''strain''" "\<lparr>shape = [], data = [1]\<rparr>"]
      voigt_errors[of "''compliance''" ones66] e s
    by (simp add: quantities_def axes_needed_def is_mandel6_matrix_ones)
qed

section \<open>The repository's test vectors\<close>

text \<open>
  The model reproduces the expected values of two tests of the repository (which call the
  Mandel6 conversion by its earlier name \<^verbatim>\<open>to_mandel\<close>).
\<close>

lemma product_3_3:
  "List.product [0..<3] [0..<3]
   = [(0, 0), (0, 1), (0, 2), (1, 0), (1, 1), (1, 2), (2, 0), (2, 1), (2, 2)]"
  by (simp add: upt_rec)

lemma test_level2_mandel6_tensor:
  "to_mandel6 level2_tensor = Inr level2_mandel"
  "to_tensor level2_mandel = Inr level2_tensor"
proof -
  show "to_mandel6 level2_tensor = Inr level2_mandel"
    by (simp add: to_mandel6_tensor2 tensor2_to_mandel_eq[OF base_entries_BASE6]
        level2_tensor_def level2_mandel_def ndarray1_def upt_rec sum_lessThan_3 sym_entry_def
        item_def ravel2 factor_def)
  show "to_tensor level2_mandel = Inr level2_tensor"
    by (simp add: to_tensor_mandel mandel_2_to_tensor_eq[OF base_entries_BASE6]
        level2_tensor_def level2_mandel_def ndarray2_def product_3_3 sum_lessThan_6
        sym_entry_def item_def ravel1 factor_def)
qed

lemma item_ones3333: "i < 3 \<Longrightarrow> j < 3 \<Longrightarrow> k < 3 \<Longrightarrow> l < 3 \<Longrightarrow> item ones3333 [i, j, k, l] = 1"
proof -
  assume "i < 3" "j < 3" "k < 3" "l < 3"
  then have "((i * 3 + j) * 3 + k) * 3 + l < 81"
    by simp
  then show ?thesis
    by (simp add: item_def ones3333_def ravel4)
qed

lemma sym_entry_total:
  "a < 6 \<Longrightarrow> (\<Sum>i<3. \<Sum>j<3. sym_entry factor a i j) = (if a < 3 then 1 else sqrt 2)"
  unfolding nat_less_6
  by (elim disjE; simp add: sum_lessThan_3 sym_entry_def factor_def)

lemma test_level4_mandel6_tensor: "to_mandel6 ones3333 = Inr level4_mandel"
proof -
  have "ndarray2 6 6 (\<lambda>a b. \<Sum>i<3. \<Sum>j<3. \<Sum>k<3. \<Sum>l<3.
            sym_entry factor a i j * item ones3333 [i, j, k, l] * sym_entry factor b k l)
      = level4_mandel"
    unfolding level4_mandel_def
  proof (rule ndarray2_cong)
    fix a b :: nat
    assume ab: "a < 6" "b < 6"
    have "(\<Sum>i<3. \<Sum>j<3. \<Sum>k<3. \<Sum>l<3.
            sym_entry factor a i j * item ones3333 [i, j, k, l] * sym_entry factor b k l)
        = (\<Sum>i<3. \<Sum>j<3. \<Sum>k<3. \<Sum>l<3. sym_entry factor a i j * sym_entry factor b k l)"
      by (intro sum.cong refl) (simp add: item_ones3333)
    also have "\<dots> = (\<Sum>i<3. \<Sum>j<3. sym_entry factor a i j) * (\<Sum>k<3. \<Sum>l<3. sym_entry factor b k l)"
      by (simp only: sum_distrib_right) (simp only: sum_distrib_left)
    finally show "(\<Sum>i<3. \<Sum>j<3. \<Sum>k<3. \<Sum>l<3.
            sym_entry factor a i j * item ones3333 [i, j, k, l] * sym_entry factor b k l)
        = (if a < 3 then 1 else sqrt 2) * (if b < 3 then 1 else sqrt 2)"
      using ab by (simp only: sym_entry_total)
  qed
  then show ?thesis
    by (simp add: to_mandel6_tensor4 tensor4_to_mandel_eq[OF base_entries_BASE6] ones3333_def)
qed

end
